theory Spec2Isabelle
  imports
    Main
    "HOL-Library.Word"
    "HOL-Library.Multiset"
    "HOL-Library.List_Lexorder"
    "HOL-Library.Char_ord"
    "HOL-Library.AList"
    "HOL-Library.Sublist"
begin

section \<open>npm-console: the backend abstraction and the aggregation services\<close>

text \<open>
  A shallow embedding of \<^verbatim>\<open>internal/core\<close>, of the manager factory
  (\<^verbatim>\<open>internal/managers\<close>) and of the four services of
  \<^verbatim>\<open>internal/services\<close> (cache, packages, config, projects).

  Go strings are byte sequences compared bytewise, which is the lexicographic order of
  \<^typ>\<open>string\<close> (a list of 8-bit characters). \<^verbatim>\<open>int64\<close> is a 64-bit
  word read as a signed number by \<^const>\<open>sint\<close>; Go's \<^verbatim>\<open>int\<close> is taken at
  its 64-bit width. A \<^verbatim>\<open>time.Time\<close> is an opaque integer.
\<close>

subsection \<open>internal/core/errors.go\<close>

text \<open>
  The sentinel errors are constructors of their own: Go compares them by identity
  (\<^verbatim>\<open>err == core.ErrProjectNotFound\<close>), and an error built elsewhere with the same
  text is a different value. \<open>Errorf text wrapped\<close> is the value of a call of
  \<^verbatim>\<open>fmt.Errorf\<close> (or \<^verbatim>\<open>errors.New\<close>): the formatted text, and the operand
  of \<^verbatim>\<open>%w\<close> when the format has one.
\<close>

datatype error =
    ErrManagerNotFound
  | ErrManagerNotAvailable
  | ErrInvalidPath
  | ErrInvalidConfig
  | ErrCacheNotFound
  | ErrProjectNotFound
  | ErrPackageNotFound
  | ErrPermissionDenied
  | ErrNetworkError
  | ErrInvalidRegistry
  | ErrInvalidProxy
  | ManagerError string string error
  | ValidationError string string string
  | ConfigError string string error
  | Errorf string "error option"

text \<open>The method \<^verbatim>\<open>Error()\<close> of each error value.\<close>

fun Error :: "error \<Rightarrow> string" where
  "Error ErrManagerNotFound = ''package manager not found''"
| "Error ErrManagerNotAvailable = ''package manager not available''"
| "Error ErrInvalidPath = ''invalid path''"
| "Error ErrInvalidConfig = ''invalid configuration''"
| "Error ErrCacheNotFound = ''cache not found''"
| "Error ErrProjectNotFound = ''project not found''"
| "Error ErrPackageNotFound = ''package not found''"
| "Error ErrPermissionDenied = ''permission denied''"
| "Error ErrNetworkError = ''network error''"
| "Error ErrInvalidRegistry = ''invalid registry URL''"
| "Error ErrInvalidProxy = ''invalid proxy configuration''"
| "Error (ManagerError manager op err) = manager @ '' '' @ op @ '': '' @ Error err"
| "Error (ValidationError field val message) =
     ''validation error for field '' @ [CHR 0x27] @ field @ [CHR 0x27] @ '' with value ''
       @ [CHR 0x27] @ val @ [CHR 0x27] @ '': '' @ message"
| "Error (ConfigError manager key err) =
     ''config error for '' @ manager @ ''.'' @ key @ '': '' @ Error err"
| "Error (Errorf text wrapped) = text"

text \<open>
  \<^verbatim>\<open>Unwrap\<close>. (Go compares two errors built by a constructor by the identity of their
  pointers; the services compare an error only with the sentinel
  \<^verbatim>\<open>ErrProjectNotFound\<close>.)
\<close>

fun Unwrap :: "error \<Rightarrow> error option" where
  "Unwrap (ManagerError manager op err) = Some err"
| "Unwrap (ConfigError manager key err) = Some err"
| "Unwrap (Errorf text wrapped) = wrapped"
| "Unwrap err = None"

definition NewManagerError :: "string \<Rightarrow> string \<Rightarrow> error \<Rightarrow> error" where
  "NewManagerError manager op err = ManagerError manager op err"

definition NewValidationError :: "string \<Rightarrow> string \<Rightarrow> string \<Rightarrow> error" where
  "NewValidationError field val message = ValidationError field val message"

fun IsValidationError :: "error \<Rightarrow> bool" where
  "IsValidationError (ValidationError field val message) = True"
| "IsValidationError (ManagerError manager op err) = IsValidationError err"
| "IsValidationError (ConfigError manager key err) = IsValidationError err"
| "IsValidationError (Errorf text (Some err)) = IsValidationError err"
| "IsValidationError err = False"

subsection \<open>internal/core/models.go\<close>

type_synonym time = int

record CacheInfo =
  Manager :: string
  Path :: string
  Size :: "64 word"
  FileCount :: "64 word"
  LastUpdated :: time

record Package =
  Name :: string
  Version :: string
  Description :: string
  Manager :: string
  IsGlobal :: bool
  Path :: string
  Size :: "64 word"
  Dependencies :: "(string \<times> string) list"
  DevDependencies :: "(string \<times> string) list"

record Config =
  Manager :: string
  Registry :: string
  Proxy :: string
  Settings :: "(string \<times> string) list"

text \<open>
  A value of type \<^verbatim>\<open>[]string\<close> is a header: the array it points into, the offset of its
  first element in that array, its length and its capacity (the elements of the array from
  the offset on that the slice may grow into). The arrays live in the memory, which maps an
  address to the array there and knows the next address not in use. Copying a record copies
  the header of its slice, so the copy and the original see the same array.
\<close>

record slice =
  base :: nat
  off :: nat
  len :: nat
  cap :: nat

record memory =
  cells :: "nat \<Rightarrow> string list"
  fresh :: nat

text \<open>
  \<open>valid_slice\<close> is what Go keeps true of every slice: its array is allocated, and its
  length is within its capacity, which is within the array.
\<close>

definition valid_slice :: "memory \<Rightarrow> slice \<Rightarrow> bool" where
  "valid_slice mem s \<longleftrightarrow>
     base s < fresh mem \<and> len s \<le> cap s \<and> off s + cap s \<le> length (cells mem (base s))"

text \<open>The element \<^verbatim>\<open>s[i]\<close>, and the elements of \<open>s\<close> in order, as the memory has them now.\<close>

definition index_slice :: "memory \<Rightarrow> slice \<Rightarrow> nat \<Rightarrow> string" where
  "index_slice mem s i = cells mem (base s) ! (off s + i)"

definition elems :: "memory \<Rightarrow> slice \<Rightarrow> string list" where
  "elems mem s = take (len s) (drop (off s) (cells mem (base s)))"

text \<open>
  The builtin \<^verbatim>\<open>append(s, x)\<close>. While the length is below the capacity, \<open>x\<close> is
  written into the array of \<open>s\<close>, right after its last element, and every other slice on
  that array sees it there. Otherwise a new array is allocated, of the capacity \<open>grow\<close>
  gives for the old one (the growth policy of the runtime, which is more than the old
  capacity), the elements of \<open>s\<close> are copied and \<open>x\<close> follows them; the rest of the
  new array holds the empty string.
\<close>

definition append_slice :: "(nat \<Rightarrow> nat) \<Rightarrow> memory \<Rightarrow> slice \<Rightarrow> string \<Rightarrow> memory \<times> slice" where
  "append_slice grow mem s x =
     (if len s < cap s
      then (mem\<lparr>cells := (cells mem)(base s := (cells mem (base s))[off s + len s := x])\<rparr>,
            s\<lparr>len := Suc (len s)\<rparr>)
      else (mem\<lparr>cells := (cells mem)
                    (fresh mem := elems mem s @ x # replicate (grow (cap s) - Suc (len s)) []),
                 fresh := Suc (fresh mem)\<rparr>,
            \<lparr>base = fresh mem, off = 0, len = Suc (len s), cap = grow (cap s)\<rparr>))"

record Project =
  Name :: string
  Path :: string
  Managers :: slice
  PackageFile :: string
  LockFile :: string
  NodeModules :: string


subsection \<open>internal/core/interfaces.go: the capability interface\<close>

text \<open>
  A backend is the record of its methods over a private state \<open>'s\<close> (the tool it drives,
  its files, its processes). A method that only reads is a function of the state; a
  method that writes returns the state it leaves behind, so a call of it is visible as one
  application of its transition. The \<^verbatim>\<open>context.Context\<close> argument is left out. A
  method that returns a pointer and an error returns one of the two.
\<close>

record 's PackageManager =
  IsAvailable :: "'s \<Rightarrow> bool"
  GetCacheInfo :: "'s \<Rightarrow> error + CacheInfo"
  ClearCache :: "'s \<Rightarrow> error option \<times> 's"
  GetInstalledPackages :: "'s \<Rightarrow> string \<Rightarrow> error + Package list"
  GetGlobalPackages :: "'s \<Rightarrow> error + Package list"
  GetConfig :: "'s \<Rightarrow> error + Config"
  SetRegistry :: "'s \<Rightarrow> string \<Rightarrow> error option \<times> 's"
  SetProxy :: "'s \<Rightarrow> string \<Rightarrow> error option \<times> 's"
  GetProjects :: "'s \<Rightarrow> string \<Rightarrow> error + Project list"

subsection \<open>What the Go runtime leaves open\<close>

text \<open>
  Three things are not determined by the program text: the order in which a
  \<^verbatim>\<open>range\<close> visits a map, the order in which the tasks of a fan-out reach the
  mutex that guards the accumulator, and the order \<^verbatim>\<open>sort.Slice\<close> gives to
  elements that compare equal (it is not stable). Each is a parameter of the function that
  meets it: an order \<open>ord\<close> that may return any permutation of the entries it is given,
  and a sort \<open>srt\<close> that may return any permutation ordered by the comparison. A Go map
  that is ranged over is the list of its entries, with distinct keys.
\<close>

definition permutes :: "('a list \<Rightarrow> 'a list) \<Rightarrow> bool" where
  "permutes ord \<longleftrightarrow> (\<forall>xs. mset (ord xs) = mset xs)"

definition sorts_by :: "(('a \<Rightarrow> 'a \<Rightarrow> bool) \<Rightarrow> 'a list \<Rightarrow> 'a list) \<Rightarrow> ('a \<Rightarrow> 'k::linorder) \<Rightarrow> bool" where
  "sorts_by srt key \<longleftrightarrow>
     (\<forall>xs. mset (srt (\<lambda>a b. key a < key b) xs) = mset xs \<and>
           sorted (map key (srt (\<lambda>a b. key a < key b) xs)))"

text \<open>
  One sort that meets the contract, to run the services on concrete inputs: insertion
  sort (which is also what \<^verbatim>\<open>sort.Slice\<close> does on a slice of at most twelve
  elements).
\<close>

fun insertLess :: "('a \<Rightarrow> 'a \<Rightarrow> bool) \<Rightarrow> 'a \<Rightarrow> 'a list \<Rightarrow> 'a list" where
  "insertLess lt x [] = [x]"
| "insertLess lt x (y # ys) =
     (if lt y x then y # insertLess lt x ys else x # y # ys)"

definition insertionSort :: "('a \<Rightarrow> 'a \<Rightarrow> bool) \<Rightarrow> 'a list \<Rightarrow> 'a list" where
  "insertionSort lt xs = foldr (insertLess lt) xs []"

subsection \<open>The logger\<close>

text \<open>
  A log entry is its level, its message, the error given to \<^verbatim>\<open>WithError\<close> and the
  fields given to \<^verbatim>\<open>WithField\<close> at the call (the logger's own field
  \<^verbatim>\<open>service\<close> is left out). The entries a call writes are a multiset: tasks that
  run concurrently write in an order the program does not fix.
\<close>

datatype level = DebugLevel | InfoLevel | WarnLevel | ErrorLevel

datatype field_value = Str string | Num int

datatype entry = Entry level string "error option" "(string \<times> field_value) list"

subsection \<open>internal/managers: ManagerFactory\<close>

text \<open>
  The factory's map from names to backends. \<open>w\<close>, everywhere below, gives the private
  state of the backend registered under each name.
\<close>

record 's ManagerFactory =
  managers :: "(string \<times> 's PackageManager) list"

definition registerManagers ::
  "'s PackageManager \<Rightarrow> 's PackageManager \<Rightarrow> 's PackageManager \<Rightarrow> 's PackageManager \<Rightarrow> 's ManagerFactory" where
  "registerManagers npm pnpm yarn bun =
     \<lparr>managers = [(''npm'', npm), (''pnpm'', pnpm), (''yarn'', yarn), (''bun'', bun)]\<rparr>"

definition GetManager :: "'s ManagerFactory \<Rightarrow> string \<Rightarrow> error + 's PackageManager" where
  "GetManager f name =
     (case map_of (managers f) name of
        None \<Rightarrow> Inl (Errorf (''package manager '' @ [CHR 0x27] @ name @ [CHR 0x27] @ '' not found'') None)
      | Some manager \<Rightarrow> Inr manager)"

definition GetAvailableManagers ::
  "'s ManagerFactory \<Rightarrow> (string \<Rightarrow> 's) \<Rightarrow> (string \<times> 's PackageManager) list" where
  "GetAvailableManagers f w = filter (\<lambda>(name, manager). IsAvailable manager (w name)) (managers f)"

definition GetAvailableManagerNames ::
  "((string \<times> 's PackageManager) list \<Rightarrow> (string \<times> 's PackageManager) list) \<Rightarrow>
   's ManagerFactory \<Rightarrow> (string \<Rightarrow> 's) \<Rightarrow> string list" where
  "GetAvailableManagerNames rng f w =
     foldl (\<lambda>names (name, manager). if IsAvailable manager (w name) then names @ [name] else names)
       [] (rng (managers f))"

definition RegisterManager ::
  "'s ManagerFactory \<Rightarrow> string \<Rightarrow> 's PackageManager \<Rightarrow> error + 's ManagerFactory" where
  "RegisterManager f name manager =
     (case map_of (managers f) name of
        Some existing \<Rightarrow>
          Inl (Errorf (''package manager '' @ [CHR 0x27] @ name @ [CHR 0x27] @ '' already registered'') None)
      | None \<Rightarrow> Inr (f\<lparr>managers := managers f @ [(name, manager)]\<rparr>))"

definition UnregisterManager :: "'s ManagerFactory \<Rightarrow> string \<Rightarrow> error + 's ManagerFactory" where
  "UnregisterManager f name =
     (case map_of (managers f) name of
        None \<Rightarrow> Inl (Errorf (''package manager '' @ [CHR 0x27] @ name @ [CHR 0x27] @ '' not found'') None)
      | Some existing \<Rightarrow> Inr (f\<lparr>managers := AList.delete name (managers f)\<rparr>))"

subsection \<open>The accumulators of a fan-out\<close>

text \<open>
  A read fan-out appends to a slice and to \<^verbatim>\<open>errors\<close> under a mutex; a write
  fan-out counts its successes instead, and changes the backends. The tasks are folded in
  the order \<open>arrival\<close> in which they reach the mutex.
\<close>

record 'a gathered =
  collected :: "'a list"
  errors :: "error list"
  logged :: "entry multiset"

record 's applied =
  backends :: "string \<Rightarrow> 's"
  failed :: "error list"
  successCount :: int
  written :: "entry multiset"

text \<open>\<^verbatim>\<open>%v\<close> of a \<^verbatim>\<open>[]error\<close>: the texts between brackets, a space apart.\<close>

fun joinSpace :: "string list \<Rightarrow> string" where
  "joinSpace [] = []"
| "joinSpace [s] = s"
| "joinSpace (s # t # rest) = s @ '' '' @ joinSpace (t # rest)"

definition formatErrors :: "error list \<Rightarrow> string" where
  "formatErrors errs = ''['' @ joinSpace (map Error errs) @ '']''"

subsection \<open>internal/services/cache.go\<close>

definition cacheInfoTask ::
  "string \<Rightarrow> 's PackageManager \<Rightarrow> 's \<Rightarrow> CacheInfo gathered \<Rightarrow> CacheInfo gathered" where
  "cacheInfoTask name mgr st acc =
     (case GetCacheInfo mgr st of
        Inl err \<Rightarrow>
          acc\<lparr>errors := errors acc @
                 [Errorf (''failed to get cache info for '' @ name @ '': '' @ Error err) (Some err)],
              logged := add_mset
                 (Entry WarnLevel ''Failed to get cache info'' (Some err) [(''manager'', Str name)])
                 (logged acc)\<rparr>
      | Inr cacheInfo \<Rightarrow> acc\<lparr>collected := collected acc @ [cacheInfo]\<rparr>)"

definition GetAllCacheInfo ::
  "((string \<times> 's PackageManager) list \<Rightarrow> (string \<times> 's PackageManager) list) \<Rightarrow>
   ((CacheInfo \<Rightarrow> CacheInfo \<Rightarrow> bool) \<Rightarrow> CacheInfo list \<Rightarrow> CacheInfo list) \<Rightarrow>
   's ManagerFactory \<Rightarrow> (string \<Rightarrow> 's) \<Rightarrow> (error + CacheInfo list) \<times> entry multiset" where
  "GetAllCacheInfo arrival srt f w =
     (let availableManagers = GetAvailableManagers f w;
          acc = foldl (\<lambda>acc (name, mgr). cacheInfoTask name mgr (w name) acc)
                  \<lparr>collected = [], errors = [], logged = {#}\<rparr> (arrival availableManagers);
          cacheInfos = srt (\<lambda>a b. CacheInfo.Manager a < CacheInfo.Manager b) (collected acc)
      in (Inr cacheInfos,
          logged acc +
            mset (map (\<lambda>err. Entry WarnLevel ''Cache info retrieval error'' (Some err) [])
                   (errors acc))))"

definition CacheService_GetCacheInfo ::
  "'s ManagerFactory \<Rightarrow> (string \<Rightarrow> 's) \<Rightarrow> string \<Rightarrow> error + CacheInfo" where
  "CacheService_GetCacheInfo f w managerName =
     (case GetManager f managerName of
        Inl err \<Rightarrow> Inl err
      | Inr manager \<Rightarrow>
          if \<not> IsAvailable manager (w managerName)
          then Inl (NewManagerError managerName ''get cache info'' ErrManagerNotAvailable)
          else GetCacheInfo manager (w managerName))"

definition clearCacheTask :: "string \<Rightarrow> 's PackageManager \<Rightarrow> 's applied \<Rightarrow> 's applied" where
  "clearCacheTask name mgr acc =
     (case ClearCache mgr (backends acc name) of
        (Some err, st) \<Rightarrow>
          acc\<lparr>backends := (backends acc)(name := st),
              failed := failed acc @
                 [Errorf (''failed to clear cache for '' @ name @ '': '' @ Error err) (Some err)],
              written := add_mset
                 (Entry ErrorLevel ''Failed to clear cache'' (Some err) [(''manager'', Str name)])
                 (written acc)\<rparr>
      | (None, st) \<Rightarrow>
          acc\<lparr>backends := (backends acc)(name := st),
              successCount := successCount acc + 1,
              written := add_mset
                 (Entry InfoLevel ''Cache cleared successfully'' None [(''manager'', Str name)])
                 (written acc)\<rparr>)"

definition ClearAllCaches ::
  "((string \<times> 's PackageManager) list \<Rightarrow> (string \<times> 's PackageManager) list) \<Rightarrow>
   's ManagerFactory \<Rightarrow> (string \<Rightarrow> 's) \<Rightarrow> error option \<times> (string \<Rightarrow> 's) \<times> entry multiset" where
  "ClearAllCaches arrival f w =
     (let availableManagers = GetAvailableManagers f w;
          acc = foldl (\<lambda>acc (name, mgr). clearCacheTask name mgr acc)
                  \<lparr>backends = w, failed = [], successCount = 0, written = {#}\<rparr>
                  (arrival availableManagers);
          entries = add_mset
                 (Entry InfoLevel ''Cache clearing completed'' None
                    [(''cleared_count'', Num (successCount acc)),
                     (''total_managers'', Num (int (length availableManagers)))])
                 (written acc)
      in if failed acc \<noteq> []
         then (Some (Errorf (''failed to clear some caches: '' @ formatErrors (failed acc)) None),
               backends acc, entries)
         else (None, backends acc, entries))"

definition CacheService_ClearCache ::
  "'s ManagerFactory \<Rightarrow> (string \<Rightarrow> 's) \<Rightarrow> string \<Rightarrow> error option \<times> (string \<Rightarrow> 's)" where
  "CacheService_ClearCache f w managerName =
     (case GetManager f managerName of
        Inl err \<Rightarrow> (Some err, w)
      | Inr manager \<Rightarrow>
          if \<not> IsAvailable manager (w managerName)
          then (Some (NewManagerError managerName ''clear cache'' ErrManagerNotAvailable), w)
          else (case ClearCache manager (w managerName) of
                  (err, st) \<Rightarrow> (err, w(managerName := st))))"

record CacheManagerStats =
  Size :: "64 word"
  FileCount :: "64 word"
  Path :: string
  LastUpdated :: time

record CacheStats =
  TotalSize :: "64 word"
  TotalFiles :: "64 word"
  ManagerCount :: int
  LargestCache :: CacheManagerStats
  LargestCacheManager :: string
  Managers :: "string \<rightharpoonup> CacheManagerStats"

record CacheSummary =
  TotalSize :: "64 word"
  TotalFiles :: "64 word"
  ManagerCount :: int
  LargestCacheManager :: string
  LargestCacheSize :: "64 word"
  AvailableManagers :: "string list"

definition statsOf :: "CacheInfo \<Rightarrow> CacheManagerStats" where
  "statsOf info =
     \<lparr>CacheManagerStats.Size = CacheInfo.Size info, FileCount = CacheInfo.FileCount info,
      Path = CacheInfo.Path info, LastUpdated = CacheInfo.LastUpdated info\<rparr>"

text \<open>One turn of the loop of \<^verbatim>\<open>GetCacheStats\<close>; the comparison of sizes is signed.\<close>

definition statsStep :: "CacheStats \<Rightarrow> CacheInfo \<Rightarrow> CacheStats" where
  "statsStep stats info =
     (let stats1 = stats\<lparr>CacheStats.TotalSize := CacheStats.TotalSize stats + CacheInfo.Size info,
                          CacheStats.TotalFiles := CacheStats.TotalFiles stats + CacheInfo.FileCount info,
                          CacheStats.ManagerCount := CacheStats.ManagerCount stats + 1,
                          Managers := (Managers stats)(CacheInfo.Manager info \<mapsto> statsOf info)\<rparr>
      in if sint (CacheInfo.Size info) > sint (CacheManagerStats.Size (LargestCache stats1))
         then stats1\<lparr>LargestCache := statsOf info,
                     CacheStats.LargestCacheManager := CacheInfo.Manager info\<rparr>
         else stats1)"

definition zeroCacheStats :: CacheStats where
  "zeroCacheStats =
     \<lparr>CacheStats.TotalSize = 0, TotalFiles = 0, ManagerCount = 0,
      LargestCache = \<lparr>CacheManagerStats.Size = 0, FileCount = 0, Path = [], LastUpdated = 0\<rparr>,
      LargestCacheManager = [], Managers = Map.empty\<rparr>"

definition GetTotalCacheSize ::
  "((string \<times> 's PackageManager) list \<Rightarrow> (string \<times> 's PackageManager) list) \<Rightarrow>
   ((CacheInfo \<Rightarrow> CacheInfo \<Rightarrow> bool) \<Rightarrow> CacheInfo list \<Rightarrow> CacheInfo list) \<Rightarrow>
   's ManagerFactory \<Rightarrow> (string \<Rightarrow> 's) \<Rightarrow> error + 64 word" where
  "GetTotalCacheSize arrival srt f w =
     (case fst (GetAllCacheInfo arrival srt f w) of
        Inl err \<Rightarrow> Inl err
      | Inr cacheInfos \<Rightarrow>
          Inr (foldl (\<lambda>totalSize info. totalSize + CacheInfo.Size info) 0 cacheInfos))"

definition GetCacheStats ::
  "((string \<times> 's PackageManager) list \<Rightarrow> (string \<times> 's PackageManager) list) \<Rightarrow>
   ((CacheInfo \<Rightarrow> CacheInfo \<Rightarrow> bool) \<Rightarrow> CacheInfo list \<Rightarrow> CacheInfo list) \<Rightarrow>
   's ManagerFactory \<Rightarrow> (string \<Rightarrow> 's) \<Rightarrow> error + CacheStats" where
  "GetCacheStats arrival srt f w =
     (case fst (GetAllCacheInfo arrival srt f w) of
        Inl err \<Rightarrow> Inl err
      | Inr cacheInfos \<Rightarrow> Inr (foldl statsStep zeroCacheStats cacheInfos))"

definition GetCacheSummary ::
  "((string \<times> 's PackageManager) list \<Rightarrow> (string \<times> 's PackageManager) list) \<Rightarrow>
   ((CacheInfo \<Rightarrow> CacheInfo \<Rightarrow> bool) \<Rightarrow> CacheInfo list \<Rightarrow> CacheInfo list) \<Rightarrow>
   ((string \<times> 's PackageManager) list \<Rightarrow> (string \<times> 's PackageManager) list) \<Rightarrow>
   's ManagerFactory \<Rightarrow> (string \<Rightarrow> 's) \<Rightarrow> error + CacheSummary" where
  "GetCacheSummary arrival srt rng f w =
     (case GetCacheStats arrival srt f w of
        Inl err \<Rightarrow> Inl err
      | Inr stats \<Rightarrow>
          Inr \<lparr>CacheSummary.TotalSize = CacheStats.TotalSize stats,
               TotalFiles = CacheStats.TotalFiles stats,
               ManagerCount = CacheStats.ManagerCount stats,
               LargestCacheManager = CacheStats.LargestCacheManager stats,
               LargestCacheSize = CacheManagerStats.Size (LargestCache stats),
               AvailableManagers = GetAvailableManagerNames rng f w\<rparr>)"

subsection \<open>internal/services/packages.go: removeDuplicatePackages\<close>

text \<open>
  The key of a package is the text \<^verbatim>\<open>fmt.Sprintf("%s@%s:%s", Name, Version, Manager)\<close>.
  The \<^verbatim>\<open>map[string]bool\<close> named \<open>seen\<close> only ever stores \<open>true\<close> and a
  missing key reads \<open>false\<close>: it is the set of the keys stored so far.
\<close>

definition packageKey :: "Package \<Rightarrow> string" where
  "packageKey pkg = Package.Name pkg @ ''@'' @ Version pkg @ '':'' @ Package.Manager pkg"

fun removeDuplicateLoop :: "string set \<Rightarrow> Package list \<Rightarrow> Package list \<Rightarrow> Package list" where
  "removeDuplicateLoop seen unique [] = unique"
| "removeDuplicateLoop seen unique (pkg # packages) =
     (let key = packageKey pkg
      in if key \<notin> seen
         then removeDuplicateLoop (insert key seen) (unique @ [pkg]) packages
         else removeDuplicateLoop seen unique packages)"

definition removeDuplicatePackages :: "Package list \<Rightarrow> Package list" where
  "removeDuplicatePackages packages = removeDuplicateLoop {} [] packages"

subsection \<open>internal/services/packages.go: PackageService\<close>

definition installedPackagesTask ::
  "string \<Rightarrow> string \<Rightarrow> 's PackageManager \<Rightarrow> 's \<Rightarrow> Package gathered \<Rightarrow> Package gathered" where
  "installedPackagesTask projectPath name mgr st acc =
     (case GetInstalledPackages mgr st projectPath of
        Inl err \<Rightarrow>
          if err = ErrProjectNotFound
          then acc\<lparr>logged := add_mset
                 (Entry DebugLevel ''No project found for this manager'' None [(''manager'', Str name)])
                 (logged acc)\<rparr>
          else acc\<lparr>errors := errors acc @
                     [Errorf (''failed to get packages from '' @ name @ '': '' @ Error err) (Some err)],
                   logged := add_mset
                     (Entry WarnLevel ''Failed to get packages'' (Some err) [(''manager'', Str name)])
                     (logged acc)\<rparr>
      | Inr packages \<Rightarrow> acc\<lparr>collected := collected acc @ packages\<rparr>)"

definition GetAllPackages ::
  "((string \<times> 's PackageManager) list \<Rightarrow> (string \<times> 's PackageManager) list) \<Rightarrow>
   ((Package \<Rightarrow> Package \<Rightarrow> bool) \<Rightarrow> Package list \<Rightarrow> Package list) \<Rightarrow>
   's ManagerFactory \<Rightarrow> (string \<Rightarrow> 's) \<Rightarrow> string \<Rightarrow> (error + Package list) \<times> entry multiset" where
  "GetAllPackages arrival srt f w projectPath =
     (if projectPath = []
      then (Inl (NewValidationError ''projectPath'' projectPath ''project path cannot be empty''), {#})
      else
        let availableManagers = GetAvailableManagers f w;
            acc = foldl (\<lambda>acc (name, mgr). installedPackagesTask projectPath name mgr (w name) acc)
                    \<lparr>collected = [], errors = [], logged = {#}\<rparr> (arrival availableManagers);
            uniquePackages = srt (\<lambda>a b. Package.Name a < Package.Name b)
                               (removeDuplicatePackages (collected acc))
        in (Inr uniquePackages,
            logged acc +
              mset (map (\<lambda>err. Entry WarnLevel ''Package retrieval error'' (Some err) [])
                     (errors acc))))"

definition GetPackagesByManager ::
  "'s ManagerFactory \<Rightarrow> (string \<Rightarrow> 's) \<Rightarrow> string \<Rightarrow> string \<Rightarrow> error + Package list" where
  "GetPackagesByManager f w managerName projectPath =
     (case GetManager f managerName of
        Inl err \<Rightarrow> Inl err
      | Inr manager \<Rightarrow>
          if \<not> IsAvailable manager (w managerName)
          then Inl (NewManagerError managerName ''get packages'' ErrManagerNotAvailable)
          else GetInstalledPackages manager (w managerName) projectPath)"

definition globalPackagesTask ::
  "string \<Rightarrow> 's PackageManager \<Rightarrow> 's \<Rightarrow> Package gathered \<Rightarrow> Package gathered" where
  "globalPackagesTask name mgr st acc =
     (case GetGlobalPackages mgr st of
        Inl err \<Rightarrow>
          acc\<lparr>errors := errors acc @
                 [Errorf (''failed to get global packages from '' @ name @ '': '' @ Error err) (Some err)],
              logged := add_mset
                 (Entry WarnLevel ''Failed to get global packages'' (Some err) [(''manager'', Str name)])
                 (logged acc)\<rparr>
      | Inr packages \<Rightarrow> acc\<lparr>collected := collected acc @ packages\<rparr>)"

definition PackageService_GetGlobalPackages ::
  "((string \<times> 's PackageManager) list \<Rightarrow> (string \<times> 's PackageManager) list) \<Rightarrow>
   ((Package \<Rightarrow> Package \<Rightarrow> bool) \<Rightarrow> Package list \<Rightarrow> Package list) \<Rightarrow>
   's ManagerFactory \<Rightarrow> (string \<Rightarrow> 's) \<Rightarrow> (error + Package list) \<times> entry multiset" where
  "PackageService_GetGlobalPackages arrival srt f w =
     (let availableManagers = GetAvailableManagers f w;
          acc = foldl (\<lambda>acc (name, mgr). globalPackagesTask name mgr (w name) acc)
                  \<lparr>collected = [], errors = [], logged = {#}\<rparr> (arrival availableManagers);
          uniquePackages = srt (\<lambda>a b. Package.Name a < Package.Name b)
                             (removeDuplicatePackages (collected acc))
      in (Inr uniquePackages,
          logged acc +
            mset (map (\<lambda>err. Entry WarnLevel ''Global package retrieval error'' (Some err) [])
                   (errors acc))))"

subsection \<open>internal/services/packages.go: ConfigService\<close>

text \<open>
  \<^verbatim>\<open>url.Parse\<close> belongs to Go's library: it is the parameter \<open>parse\<close>, and a parsed
  URL is the two fields the service reads.
\<close>

record URL =
  Scheme :: string
  Host :: string

definition ValidateRegistryURL :: "(string \<Rightarrow> error + URL) \<Rightarrow> string \<Rightarrow> error option" where
  "ValidateRegistryURL parse registryURL =
     (if registryURL = []
      then Some (NewValidationError ''registry'' registryURL ''registry URL cannot be empty'')
      else case parse registryURL of
        Inl err \<Rightarrow> Some (NewValidationError ''registry'' registryURL ''invalid URL format'')
      | Inr parsedURL \<Rightarrow>
          if Scheme parsedURL \<noteq> ''http'' \<and> Scheme parsedURL \<noteq> ''https''
          then Some (NewValidationError ''registry'' registryURL
                       ''registry URL must use http or https scheme'')
          else if Host parsedURL = []
          then Some (NewValidationError ''registry'' registryURL ''registry URL must have a host'')
          else None)"

definition ValidateProxyURL :: "(string \<Rightarrow> error + URL) \<Rightarrow> string \<Rightarrow> error option" where
  "ValidateProxyURL parse proxyURL =
     (if proxyURL = []
      then None
      else case parse proxyURL of
        Inl err \<Rightarrow> Some (NewValidationError ''proxy'' proxyURL ''invalid URL format'')
      | Inr parsedURL \<Rightarrow>
          if Scheme parsedURL \<noteq> ''http'' \<and> Scheme parsedURL \<noteq> ''https''
          then Some (NewValidationError ''proxy'' proxyURL ''proxy URL must use http or https scheme'')
          else if Host parsedURL = []
          then Some (NewValidationError ''proxy'' proxyURL ''proxy URL must have a host'')
          else None)"

definition configTask ::
  "string \<Rightarrow> 's PackageManager \<Rightarrow> 's \<Rightarrow> Config gathered \<Rightarrow> Config gathered" where
  "configTask name mgr st acc =
     (case GetConfig mgr st of
        Inl err \<Rightarrow>
          acc\<lparr>errors := errors acc @
                 [Errorf (''failed to get config for '' @ name @ '': '' @ Error err) (Some err)],
              logged := add_mset
                 (Entry WarnLevel ''Failed to get config'' (Some err) [(''manager'', Str name)])
                 (logged acc)\<rparr>
      | Inr config \<Rightarrow> acc\<lparr>collected := collected acc @ [config]\<rparr>)"

definition GetAllConfigs ::
  "((string \<times> 's PackageManager) list \<Rightarrow> (string \<times> 's PackageManager) list) \<Rightarrow>
   ((Config \<Rightarrow> Config \<Rightarrow> bool) \<Rightarrow> Config list \<Rightarrow> Config list) \<Rightarrow>
   's ManagerFactory \<Rightarrow> (string \<Rightarrow> 's) \<Rightarrow> (error + Config list) \<times> entry multiset" where
  "GetAllConfigs arrival srt f w =
     (let availableManagers = GetAvailableManagers f w;
          acc = foldl (\<lambda>acc (name, mgr). configTask name mgr (w name) acc)
                  \<lparr>collected = [], errors = [], logged = {#}\<rparr> (arrival availableManagers);
          configs = srt (\<lambda>a b. Config.Manager a < Config.Manager b) (collected acc)
      in (Inr configs,
          logged acc +
            mset (map (\<lambda>err. Entry WarnLevel ''Config retrieval error'' (Some err) [])
                   (errors acc))))"

definition ConfigService_SetRegistry ::
  "(string \<Rightarrow> error + URL) \<Rightarrow> 's ManagerFactory \<Rightarrow> (string \<Rightarrow> 's) \<Rightarrow> string \<Rightarrow> string \<Rightarrow>
   error option \<times> (string \<Rightarrow> 's) \<times> entry multiset" where
  "ConfigService_SetRegistry parse f w managerName registryURL =
     (case ValidateRegistryURL parse registryURL of
        Some err \<Rightarrow> (Some err, w, {#})
      | None \<Rightarrow>
          (case GetManager f managerName of
             Inl err \<Rightarrow> (Some err, w, {#})
           | Inr manager \<Rightarrow>
               if \<not> IsAvailable manager (w managerName)
               then (Some (NewManagerError managerName ''set registry'' ErrManagerNotAvailable), w, {#})
               else (case SetRegistry manager (w managerName) registryURL of
                       (Some err, st) \<Rightarrow> (Some err, w(managerName := st), {#})
                     | (None, st) \<Rightarrow>
                         (None, w(managerName := st),
                          {#Entry InfoLevel ''Registry updated'' None
                              [(''manager'', Str managerName), (''registry'', Str registryURL)]#}))))"

definition setRegistryTask ::
  "string \<Rightarrow> string \<Rightarrow> 's PackageManager \<Rightarrow> 's applied \<Rightarrow> 's applied" where
  "setRegistryTask registryURL name mgr acc =
     (case SetRegistry mgr (backends acc name) registryURL of
        (Some err, st) \<Rightarrow>
          acc\<lparr>backends := (backends acc)(name := st),
              failed := failed acc @
                 [Errorf (''failed to set registry for '' @ name @ '': '' @ Error err) (Some err)],
              written := add_mset
                 (Entry ErrorLevel ''Failed to set registry'' (Some err) [(''manager'', Str name)])
                 (written acc)\<rparr>
      | (None, st) \<Rightarrow>
          acc\<lparr>backends := (backends acc)(name := st),
              successCount := successCount acc + 1,
              written := add_mset
                 (Entry InfoLevel ''Registry updated'' None
                    [(''manager'', Str name), (''registry'', Str registryURL)])
                 (written acc)\<rparr>)"

definition SetRegistryForAll ::
  "(string \<Rightarrow> error + URL) \<Rightarrow>
   ((string \<times> 's PackageManager) list \<Rightarrow> (string \<times> 's PackageManager) list) \<Rightarrow>
   's ManagerFactory \<Rightarrow> (string \<Rightarrow> 's) \<Rightarrow> string \<Rightarrow>
   error option \<times> (string \<Rightarrow> 's) \<times> entry multiset" where
  "SetRegistryForAll parse arrival f w registryURL =
     (case ValidateRegistryURL parse registryURL of
        Some err \<Rightarrow> (Some err, w, {#})
      | None \<Rightarrow>
          let availableManagers = GetAvailableManagers f w;
              acc = foldl (\<lambda>acc (name, mgr). setRegistryTask registryURL name mgr acc)
                      \<lparr>backends = w, failed = [], successCount = 0, written = {#}\<rparr>
                      (arrival availableManagers);
              entries = add_mset
                     (Entry InfoLevel ''Registry update completed'' None
                        [(''success_count'', Num (successCount acc)),
                         (''total_managers'', Num (int (length availableManagers)))])
                     (written acc)
          in if failed acc \<noteq> []
             then (Some (Errorf (''failed to set registry for some managers: '' @
                            formatErrors (failed acc)) None),
                   backends acc, entries)
             else (None, backends acc, entries))"

definition ConfigService_SetProxy ::
  "(string \<Rightarrow> error + URL) \<Rightarrow> 's ManagerFactory \<Rightarrow> (string \<Rightarrow> 's) \<Rightarrow> string \<Rightarrow> string \<Rightarrow>
   error option \<times> (string \<Rightarrow> 's) \<times> entry multiset" where
  "ConfigService_SetProxy parse f w managerName proxyURL =
     (case (if proxyURL \<noteq> [] then ValidateProxyURL parse proxyURL else None) of
        Some err \<Rightarrow> (Some err, w, {#})
      | None \<Rightarrow>
          (case GetManager f managerName of
             Inl err \<Rightarrow> (Some err, w, {#})
           | Inr manager \<Rightarrow>
               if \<not> IsAvailable manager (w managerName)
               then (Some (NewManagerError managerName ''set proxy'' ErrManagerNotAvailable), w, {#})
               else (case SetProxy manager (w managerName) proxyURL of
                       (Some err, st) \<Rightarrow> (Some err, w(managerName := st), {#})
                     | (None, st) \<Rightarrow>
                         (None, w(managerName := st),
                          if proxyURL = []
                          then {#Entry InfoLevel ''Proxy removed'' None [(''manager'', Str managerName)]#}
                          else {#Entry InfoLevel ''Proxy updated'' None
                                  [(''manager'', Str managerName), (''proxy'', Str proxyURL)]#}))))"

definition setProxyTask ::
  "string \<Rightarrow> string \<Rightarrow> 's PackageManager \<Rightarrow> 's applied \<Rightarrow> 's applied" where
  "setProxyTask proxyURL name mgr acc =
     (case SetProxy mgr (backends acc name) proxyURL of
        (Some err, st) \<Rightarrow>
          acc\<lparr>backends := (backends acc)(name := st),
              failed := failed acc @
                 [Errorf (''failed to set proxy for '' @ name @ '': '' @ Error err) (Some err)],
              written := add_mset
                 (Entry ErrorLevel ''Failed to set proxy'' (Some err) [(''manager'', Str name)])
                 (written acc)\<rparr>
      | (None, st) \<Rightarrow>
          acc\<lparr>backends := (backends acc)(name := st),
              successCount := successCount acc + 1,
              written := add_mset
                 (if proxyURL = []
                  then Entry InfoLevel ''Proxy removed'' None [(''manager'', Str name)]
                  else Entry InfoLevel ''Proxy updated'' None
                         [(''manager'', Str name), (''proxy'', Str proxyURL)])
                 (written acc)\<rparr>)"

definition SetProxyForAll ::
  "(string \<Rightarrow> error + URL) \<Rightarrow>
   ((string \<times> 's PackageManager) list \<Rightarrow> (string \<times> 's PackageManager) list) \<Rightarrow>
   's ManagerFactory \<Rightarrow> (string \<Rightarrow> 's) \<Rightarrow> string \<Rightarrow>
   error option \<times> (string \<Rightarrow> 's) \<times> entry multiset" where
  "SetProxyForAll parse arrival f w proxyURL =
     (case (if proxyURL \<noteq> [] then ValidateProxyURL parse proxyURL else None) of
        Some err \<Rightarrow> (Some err, w, {#})
      | None \<Rightarrow>
          let availableManagers = GetAvailableManagers f w;
              acc = foldl (\<lambda>acc (name, mgr). setProxyTask proxyURL name mgr acc)
                      \<lparr>backends = w, failed = [], successCount = 0, written = {#}\<rparr>
                      (arrival availableManagers);
              entries = add_mset
                     (Entry InfoLevel ''Proxy update completed'' None
                        [(''success_count'', Num (successCount acc)),
                         (''total_managers'', Num (int (length availableManagers)))])
                     (written acc)
          in if failed acc \<noteq> []
             then (Some (Errorf (''failed to set proxy for some managers: '' @
                            formatErrors (failed acc)) None),
                   backends acc, entries)
             else (None, backends acc, entries))"

subsection \<open>pkg/utils: the file system\<close>

text \<open>
  The host is what the services ask of the operating system and of Go's library:
  \<^verbatim>\<open>os.Stat\<close> (there is no such path, another error, a directory, or a file),
  \<^verbatim>\<open>os.UserHomeDir\<close>, \<^verbatim>\<open>os.ReadFile\<close>, \<^verbatim>\<open>filepath.Join\<close> of two elements
  and \<^verbatim>\<open>json.Unmarshal\<close> into a \<^verbatim>\<open>PackageJsonInfo\<close>.
\<close>

record PackageJsonInfo =
  Name :: string
  Version :: string
  Description :: string
  Dependencies :: "(string \<times> string) list"
  DevDependencies :: "(string \<times> string) list"
  Scripts :: "(string \<times> string) list"

datatype stat_result = NotExist | StatFailed | Directory | RegularFile

record host =
  Stat :: "string \<Rightarrow> stat_result"
  UserHomeDir :: "error + string"
  ReadFile :: "string \<Rightarrow> error + string"
  Join :: "string \<Rightarrow> string \<Rightarrow> string"
  Unmarshal :: "string \<Rightarrow> error + PackageJsonInfo"

definition PathExists :: "host \<Rightarrow> string \<Rightarrow> bool" where
  "PathExists h path \<longleftrightarrow> Stat h path \<noteq> NotExist"

definition IsDir :: "host \<Rightarrow> string \<Rightarrow> bool" where
  "IsDir h path \<longleftrightarrow> Stat h path = Directory"


definition ExpandPath :: "host \<Rightarrow> string \<Rightarrow> error + string" where
  "ExpandPath h path =
     (if \<not> prefix ''~'' path then Inr path
      else case UserHomeDir h of
        Inl err \<Rightarrow> Inl err
      | Inr home \<Rightarrow>
          if path = ''~'' then Inr home
          else if prefix ''~/'' path then Inr (Join h home (drop 2 path))
          else Inr path)"

subsection \<open>internal/services/projects.go\<close>

text \<open>
  \<^verbatim>\<open>mergeProjects\<close>. The map \<open>projectMap\<close> is the list of its entries; an entry is the
  record the map points to, a copy of the first record seen with that path, whose
  \<^verbatim>\<open>Managers\<close> header still points into the array of the original. The loop over
  \<^verbatim>\<open>project.Managers\<close> reads the header once and then one element of the array at each
  turn; the inner loop looks the manager up among the elements \<^verbatim>\<open>existing.Managers\<close> has
  at that moment, and \<^verbatim>\<open>append\<close> adds it when it is not found. The last loop ranges
  over the map in the order \<open>rng\<close>. The memory is threaded through, and the merge
  returns it with the list.
\<close>

definition mergeManager :: "(nat \<Rightarrow> nat) \<Rightarrow> slice \<Rightarrow> memory \<times> slice \<Rightarrow> nat \<Rightarrow> memory \<times> slice" where
  "mergeManager grow projectManagers state i =
     (case state of (mem, existingManagers) \<Rightarrow>
        let manager = index_slice mem projectManagers i;
            found = (manager \<in> set (elems mem existingManagers))
        in if \<not> found then append_slice grow mem existingManagers manager
           else (mem, existingManagers))"

definition mergeManagers :: "(nat \<Rightarrow> nat) \<Rightarrow> memory \<Rightarrow> slice \<Rightarrow> slice \<Rightarrow> memory \<times> slice" where
  "mergeManagers grow mem existingManagers projectManagers =
     foldl (mergeManager grow projectManagers) (mem, existingManagers) [0..<len projectManagers]"

definition mergeInto :: "(nat \<Rightarrow> nat) \<Rightarrow> memory \<Rightarrow> Project \<Rightarrow> Project \<Rightarrow> memory \<times> Project" where
  "mergeInto grow mem existing project =
     (case mergeManagers grow mem (Project.Managers existing) (Project.Managers project) of
        (mem', existingManagers) \<Rightarrow>
          let merged = existing\<lparr>Project.Managers := existingManagers\<rparr>
          in (mem', if LockFile merged = [] \<and> LockFile project \<noteq> []
                    then merged\<lparr>LockFile := LockFile project\<rparr>
                    else merged))"

fun mergeLoop ::
  "(nat \<Rightarrow> nat) \<Rightarrow> memory \<Rightarrow> (string \<times> Project) list \<Rightarrow> Project list \<Rightarrow>
   memory \<times> (string \<times> Project) list" where
  "mergeLoop grow mem projectMap [] = (mem, projectMap)"
| "mergeLoop grow mem projectMap (project # rest) =
     (case map_of projectMap (Project.Path project) of
        Some existing \<Rightarrow>
          (case mergeInto grow mem existing project of
             (mem', merged) \<Rightarrow>
               mergeLoop grow mem' (AList.update (Project.Path project) merged projectMap) rest)
      | None \<Rightarrow> mergeLoop grow mem (projectMap @ [(Project.Path project, project)]) rest)"

definition mergeProjects ::
  "(nat \<Rightarrow> nat) \<Rightarrow> ((string \<times> Project) list \<Rightarrow> (string \<times> Project) list) \<Rightarrow>
   memory \<Rightarrow> Project list \<Rightarrow> Project list \<times> memory" where
  "mergeProjects grow rng mem projects =
     (case mergeLoop grow mem [] projects of
        (mem', projectMap) \<Rightarrow>
          (foldl (\<lambda>merged (path, project). merged @ [project]) [] (rng projectMap), mem'))"

definition projectsTask ::
  "string \<Rightarrow> string \<Rightarrow> 's PackageManager \<Rightarrow> 's \<Rightarrow> Project gathered \<Rightarrow> Project gathered" where
  "projectsTask expandedPath name mgr st acc =
     (case GetProjects mgr st expandedPath of
        Inl err \<Rightarrow>
          acc\<lparr>errors := errors acc @
                 [Errorf (''failed to scan projects with '' @ name @ '': '' @ Error err) (Some err)],
              logged := add_mset
                 (Entry WarnLevel ''Failed to scan projects'' (Some err) [(''manager'', Str name)])
                 (logged acc)\<rparr>
      | Inr projects \<Rightarrow> acc\<lparr>collected := collected acc @ projects\<rparr>)"

text \<open>The slice \<^verbatim>\<open>allProjects\<close> that \<^verbatim>\<open>ScanProjects\<close> hands to the merge.\<close>

definition scanAll ::
  "((string \<times> 's PackageManager) list \<Rightarrow> (string \<times> 's PackageManager) list) \<Rightarrow>
   's ManagerFactory \<Rightarrow> (string \<Rightarrow> 's) \<Rightarrow> string \<Rightarrow> Project gathered" where
  "scanAll arrival f w expandedPath =
     foldl (\<lambda>acc (name, mgr). projectsTask expandedPath name mgr (w name) acc)
       \<lparr>collected = [], errors = [], logged = {#}\<rparr> (arrival (GetAvailableManagers f w))"

text \<open>
  \<^verbatim>\<open>ScanProjects\<close>. The memory \<open>mem\<close> is the one the tasks leave behind: it holds the
  arrays of the records the backends returned. The result is the list (or the error), the
  memory after the merge, and what was logged.
\<close>

definition ScanProjects ::
  "(nat \<Rightarrow> nat) \<Rightarrow>
   ((string \<times> 's PackageManager) list \<Rightarrow> (string \<times> 's PackageManager) list) \<Rightarrow>
   ((string \<times> Project) list \<Rightarrow> (string \<times> Project) list) \<Rightarrow>
   ((Project \<Rightarrow> Project \<Rightarrow> bool) \<Rightarrow> Project list \<Rightarrow> Project list) \<Rightarrow>
   host \<Rightarrow> 's ManagerFactory \<Rightarrow> (string \<Rightarrow> 's) \<Rightarrow> memory \<Rightarrow> string \<Rightarrow>
   (error + Project list) \<times> memory \<times> entry multiset" where
  "ScanProjects grow arrival rng srt h f w mem rootPath =
     (if rootPath = []
      then (Inl (NewValidationError ''rootPath'' rootPath ''root path cannot be empty''), mem, {#})
      else case ExpandPath h rootPath of
        Inl err \<Rightarrow> (Inl (Errorf (''failed to expand path: '' @ Error err) (Some err)), mem, {#})
      | Inr expandedPath \<Rightarrow>
          if \<not> PathExists h expandedPath
          then (Inl (NewValidationError ''rootPath'' rootPath ''path does not exist''), mem, {#})
          else if \<not> IsDir h expandedPath
          then (Inl (NewValidationError ''rootPath'' rootPath ''path is not a directory''), mem, {#})
          else
            let acc = scanAll arrival f w expandedPath
            in case mergeProjects grow rng mem (collected acc) of
              (merged, mem') \<Rightarrow>
                let mergedProjects = srt (\<lambda>a b. Project.Path a < Project.Path b) merged
                in (Inr mergedProjects, mem',
                    add_mset
                      (Entry InfoLevel ''Project scan completed'' None
                         [(''project_count'', Num (int (length mergedProjects))),
                          (''scan_path'', Str expandedPath)])
                      (logged acc +
                         mset (map (\<lambda>err. Entry WarnLevel ''Project scanning error'' (Some err) [])
                                (errors acc)))))"



subsection \<open>Backends for running the services on concrete inputs\<close>

text \<open>
  A backend whose state counts the calls of its writing methods: every read has a fixed
  outcome, every write the outcome \<open>werr\<close>.
\<close>

definition countingBackend ::
  "bool \<Rightarrow> (error + CacheInfo) \<Rightarrow> (error + Package list) \<Rightarrow> (error + Config) \<Rightarrow>
   (error + Project list) \<Rightarrow> error option \<Rightarrow> nat PackageManager" where
  "countingBackend available cache packages config projects werr =
     \<lparr>IsAvailable = (\<lambda>st. available),
      GetCacheInfo = (\<lambda>st. cache),
      ClearCache = (\<lambda>st. (werr, Suc st)),
      GetInstalledPackages = (\<lambda>st projectPath. packages),
      GetGlobalPackages = (\<lambda>st. packages),
      GetConfig = (\<lambda>st. config),
      SetRegistry = (\<lambda>st url. (werr, Suc st)),
      SetProxy = (\<lambda>st url. (werr, Suc st)),
      GetProjects = (\<lambda>st rootPath. projects)\<rparr>"

text \<open>Example values: four backends under the names the factory registers.\<close>

definition exampleCache :: "string \<Rightarrow> 64 word \<Rightarrow> CacheInfo" where
  "exampleCache name bytes =
     \<lparr>CacheInfo.Manager = name, Path = ''/cache/'' @ name, Size = bytes, FileCount = 0,
      LastUpdated = 0\<rparr>"

definition examplePackage :: "string \<Rightarrow> string \<Rightarrow> string \<Rightarrow> Package" where
  "examplePackage name version manager =
     \<lparr>Package.Name = name, Version = version, Description = [], Manager = manager,
      IsGlobal = False, Path = [], Size = 0, Dependencies = [], DevDependencies = []\<rparr>"

definition exampleConfig :: "string \<Rightarrow> Config" where
  "exampleConfig name =
     \<lparr>Config.Manager = name, Registry = ''https://registry.npmjs.org/'', Proxy = [],
      Settings = []\<rparr>"

text \<open>
  The slice a composite literal of \<open>n\<close> elements gives, its array at the address \<open>a\<close>:
  the whole array, with no capacity to spare. The four adapters build the
  \<^verbatim>\<open>Managers\<close> of every record they report this way, as \<^verbatim>\<open>[]string{"npm"}\<close>.
\<close>

definition literalSlice :: "nat \<Rightarrow> nat \<Rightarrow> slice" where
  "literalSlice a n = \<lparr>base = a, off = 0, len = n, cap = n\<rparr>"

definition exampleProject :: "string \<Rightarrow> slice \<Rightarrow> string \<Rightarrow> Project" where
  "exampleProject path names lockFile =
     \<lparr>Project.Name = ''app'', Path = path, Managers = names,
      PackageFile = path @ ''/package.json'', LockFile = lockFile,
      NodeModules = path @ ''/node_modules''\<rparr>"

definition freshState :: "string \<Rightarrow> nat" where
  "freshState name = 0"

text \<open>npm and yarn are available; every call of pnpm and of bun would succeed.\<close>

definition failingFactory :: "nat ManagerFactory" where
  "failingFactory =
     registerManagers
       (countingBackend True (Inl ErrPermissionDenied) (Inl ErrProjectNotFound)
          (Inl ErrInvalidConfig) (Inl ErrInvalidPath) (Some ErrPermissionDenied))
       (countingBackend False (Inr (exampleCache ''pnpm'' 7)) (Inr []) (Inr (exampleConfig ''pnpm''))
          (Inr []) None)
       (countingBackend True (Inl ErrNetworkError) (Inl ErrNetworkError)
          (Inl ErrNetworkError) (Inl ErrNetworkError) (Some ErrNetworkError))
       (countingBackend False (Inr (exampleCache ''bun'' 9)) (Inr []) (Inr (exampleConfig ''bun''))
          (Inr []) None)"

text \<open>
  npm, pnpm and yarn are available. npm answers every call; pnpm has no project and fails
  elsewhere; yarn fails to list packages. npm and yarn both report the project
  \<^verbatim>\<open>/work/app\<close>, npm without a lock file. The three records have their manager lists
  in three arrays of \<open>exampleMemory\<close>; \<open>exampleGrow\<close> doubles a capacity.
\<close>

definition exampleMemory :: memory where
  "exampleMemory =
     \<lparr>cells = (\<lambda>a. if a = 0 then [''npm''] else if a = 1 then [''yarn'']
                    else if a = 2 then [''yarn''] else []),
      fresh = 3\<rparr>"

definition exampleGrow :: "nat \<Rightarrow> nat" where
  "exampleGrow c = (if c = 0 then 1 else 2 * c)"

definition mixedFactory :: "nat ManagerFactory" where
  "mixedFactory =
     registerManagers
       (countingBackend True (Inr (exampleCache ''npm'' 5))
          (Inr [examplePackage ''react'' ''18.2.0'' ''npm'',
                examplePackage ''lodash'' ''4.17.21'' ''npm'',
                examplePackage ''lodash'' ''4.17.21'' ''npm''])
          (Inr (exampleConfig ''npm''))
          (Inr [exampleProject ''/work/app'' (literalSlice 0 1) []]) None)
       (countingBackend True (Inl ErrPermissionDenied) (Inl ErrProjectNotFound)
          (Inl ErrInvalidConfig) (Inl ErrInvalidPath) (Some ErrPermissionDenied))
       (countingBackend True (Inr (exampleCache ''yarn'' 5)) (Inl ErrNetworkError)
          (Inr (exampleConfig ''yarn''))
          (Inr [exampleProject ''/work/lib'' (literalSlice 1 1) ''/work/lib/yarn.lock'',
                exampleProject ''/work/app'' (literalSlice 2 1) ''/work/app/yarn.lock'']) None)
       (countingBackend False (Inr (exampleCache ''bun'' 9)) (Inr []) (Inr (exampleConfig ''bun''))
          (Inr []) None)"

text \<open>A host with the directory \<^verbatim>\<open>/work\<close> and one manifest in it.\<close>

definition exampleManifest :: PackageJsonInfo where
  "exampleManifest =
     \<lparr>PackageJsonInfo.Name = ''test-project'', Version = ''1.0.0'', Description = [],
      Dependencies = [(''react'', ''^18.0.0''), (''lodash'', ''^4.17.21'')],
      DevDependencies = [(''typescript'', ''^4.9.0'')],
      Scripts = [(''build'', ''tsc'')]\<rparr>"

definition exampleHost :: host where
  "exampleHost =
     \<lparr>Stat = (\<lambda>path. if path = ''/work'' then Directory
                      else if path = ''/work/package.json'' then RegularFile
                      else NotExist),
      UserHomeDir = Inr ''/home/user'',
      ReadFile = (\<lambda>path. if path = ''/work/package.json'' then Inr ''{}'' else Inl ErrInvalidPath),
      Join = (\<lambda>dir name. dir @ ''/'' @ name),
      Unmarshal = (\<lambda>content. Inr exampleManifest)\<rparr>"

text \<open>Only npm is available, and its cache directory does not exist yet.\<close>

definition idleFactory :: "nat ManagerFactory" where
  "idleFactory =
     registerManagers
       (countingBackend True (Inr (exampleCache ''npm'' 0)) (Inr []) (Inr (exampleConfig ''npm''))
          (Inr []) None)
       (countingBackend False (Inl ErrCacheNotFound) (Inr []) (Inl ErrInvalidConfig) (Inr []) None)
       (countingBackend False (Inl ErrCacheNotFound) (Inr []) (Inl ErrInvalidConfig) (Inr []) None)
       (countingBackend False (Inl ErrCacheNotFound) (Inr []) (Inl ErrInvalidConfig) (Inr []) None)"

text \<open>What \<^verbatim>\<open>url.Parse\<close> returns on five texts.\<close>

definition exampleParse :: "string \<Rightarrow> error + URL" where
  "exampleParse text =
     (if text = ''https://registry.npmjs.org/''
      then Inr \<lparr>Scheme = ''https'', Host = ''registry.npmjs.org''\<rparr>
      else if text = ''http://localhost:4873/''
      then Inr \<lparr>Scheme = ''http'', Host = ''localhost:4873''\<rparr>
      else if text = ''ftp://invalid.com/''
      then Inr \<lparr>Scheme = ''ftp'', Host = ''invalid.com''\<rparr>
      else if text = ''http://[::1''
      then Inl (Errorf ''missing ] in host'' None)
      else Inr \<lparr>Scheme = [], Host = []\<rparr>)"

text \<open>
  npm reports two projects whose manager lists are two slices of one array that has room
  for a second element; pnpm reports the first of the two projects and yarn the second. The
  tasks arrive in the order of the list (the order \<^const>\<open>id\<close>).
\<close>

definition sharedMemory :: memory where
  "sharedMemory =
     \<lparr>cells = (\<lambda>a. if a = 0 then [''npm'', []] else if a = 1 then [''pnpm'']
                    else if a = 2 then [''yarn''] else []),
      fresh = 3\<rparr>"

definition sharingFactory :: "nat ManagerFactory" where
  "sharingFactory =
     registerManagers
       (countingBackend True (Inr (exampleCache ''npm'' 5)) (Inr []) (Inr (exampleConfig ''npm''))
          (Inr [exampleProject ''/work/app'' \<lparr>base = 0, off = 0, len = 1, cap = 2\<rparr> [],
                exampleProject ''/work/lib'' \<lparr>base = 0, off = 0, len = 1, cap = 2\<rparr> []]) None)
       (countingBackend True (Inr (exampleCache ''pnpm'' 5)) (Inr []) (Inr (exampleConfig ''pnpm''))
          (Inr [exampleProject ''/work/app'' (literalSlice 1 1) ''/work/app/pnpm-lock.yaml'']) None)
       (countingBackend True (Inr (exampleCache ''yarn'' 5)) (Inr []) (Inr (exampleConfig ''yarn''))
          (Inr [exampleProject ''/work/lib'' (literalSlice 2 1) ''/work/lib/yarn.lock'']) None)
       (countingBackend False (Inl ErrCacheNotFound) (Inr []) (Inl ErrInvalidConfig) (Inr []) None)"

section \<open>Properties\<close>

subsection \<open>Permutations and sorts\<close>

lemma permutes_set: "permutes ord \<Longrightarrow> set (ord xs) = set xs"
  unfolding permutes_def by (metis set_mset_mset)


lemma permutes_mset: "permutes ord \<Longrightarrow> mset (ord xs) = mset xs"
  unfolding permutes_def by blast

lemma permutes_id: "permutes (\<lambda>xs. xs)"
  by (simp add: permutes_def)

lemma permutes_rev: "permutes rev"
  by (simp add: permutes_def)

lemma sorts_by_mset: "sorts_by srt key \<Longrightarrow> mset (srt (\<lambda>a b. key a < key b) xs) = mset xs"
  unfolding sorts_by_def by blast

lemma sorts_by_set: "sorts_by srt key \<Longrightarrow> set (srt (\<lambda>a b. key a < key b) xs) = set xs"
  using sorts_by_mset[of srt key xs] by (metis set_mset_mset)

lemma sorts_by_sorted: "sorts_by srt key \<Longrightarrow> sorted (map key (srt (\<lambda>a b. key a < key b) xs))"
  unfolding sorts_by_def by blast

lemma sorts_by_Nil: "sorts_by srt key \<Longrightarrow> srt (\<lambda>a b. key a < key b) [] = []"
  using sorts_by_mset[of srt key "[]"] by simp

lemma set_insertLess: "set (insertLess lt x ys) = insert x (set ys)"
  by (induction ys) auto

lemma mset_insertLess: "mset (insertLess lt x ys) = add_mset x (mset ys)"
  by (induction ys) auto

lemma sorted_insertLess:
  fixes key :: "'a \<Rightarrow> 'k::linorder"
  shows "sorted (map key ys) \<Longrightarrow> sorted (map key (insertLess (\<lambda>a b. key a < key b) x ys))"
  by (induction ys) (auto simp: set_insertLess)

lemma sorts_by_insertionSort: "sorts_by insertionSort key"
proof -
  have m: "\<And>xs. mset (insertionSort (\<lambda>a b. key a < key b) xs) = mset xs"
    unfolding insertionSort_def by (induct_tac xs) (simp_all add: mset_insertLess)
  have s: "\<And>xs. sorted (map key (insertionSort (\<lambda>a b. key a < key b) xs))"
    unfolding insertionSort_def by (induct_tac xs) (simp_all add: sorted_insertLess)
  show ?thesis unfolding sorts_by_def using m s by blast
qed

subsection \<open>The fold of a read fan-out\<close>

lemma foldl_gathered:
  assumes step: "\<And>acc x. step acc x =
      acc\<lparr>collected := collected acc @ g x, errors := errors acc @ e x, logged := logged acc + l x\<rparr>"
  shows "foldl step acc xs =
      acc\<lparr>collected := collected acc @ concat (map g xs),
          errors := errors acc @ concat (map e xs),
          logged := logged acc + sum_list (map l xs)\<rparr>"
proof (induction xs arbitrary: acc)
  case Nil
  show ?case by simp
next
  case (Cons x xs)
  have "foldl step acc (x # xs) = foldl step (step acc x) xs" by simp
  also have "\<dots> = (step acc x)\<lparr>collected := collected (step acc x) @ concat (map g xs),
          errors := errors (step acc x) @ concat (map e xs),
          logged := logged (step acc x) + sum_list (map l xs)\<rparr>" by (rule Cons.IH)
  also have "\<dots> = acc\<lparr>collected := collected acc @ concat (map g (x # xs)),
          errors := errors acc @ concat (map e (x # xs)),
          logged := logged acc + sum_list (map l (x # xs))\<rparr>"
    by (simp add: step[of acc x] add.assoc)
  finally show ?case .
qed

lemma mset_concat_map_cong:
  assumes "mset xs = mset ys"
  shows "mset (concat (map g xs)) = mset (concat (map g ys))"
proof -
  have "\<And>zs. mset (concat (map g zs)) = (\<Sum>z\<in>#mset zs. mset (g z))"
    by (induct_tac zs) simp_all
  then show ?thesis using assms by simp
qed

lemma sum_list_map_cong_mset:
  fixes l :: "'a \<Rightarrow> 'b multiset"
  assumes "mset xs = mset ys"
  shows "sum_list (map l xs) = sum_list (map l ys)"
proof -
  have "\<And>zs. sum_list (map l zs) = (\<Sum>z\<in>#mset zs. l z)"
    by (induct_tac zs) simp_all
  then show ?thesis using assms by simp
qed

lemma concat_map_Nil: "(\<And>x. x \<in> set xs \<Longrightarrow> g x = []) \<Longrightarrow> concat (map g xs) = []"
  by (induction xs) auto

subsection \<open>The cache service\<close>

lemma cacheInfo_fold:
  "foldl (\<lambda>acc (name, mgr). cacheInfoTask name mgr (w name) acc) acc xs =
     acc\<lparr>collected := collected acc @
            concat (map (\<lambda>(name, mgr). case GetCacheInfo mgr (w name) of
                           Inl err \<Rightarrow> [] | Inr cacheInfo \<Rightarrow> [cacheInfo]) xs),
         errors := errors acc @
            concat (map (\<lambda>(name, mgr). case GetCacheInfo mgr (w name) of
                           Inl err \<Rightarrow> [Errorf (''failed to get cache info for '' @ name @ '': '' @ Error err) (Some err)]
                         | Inr cacheInfo \<Rightarrow> []) xs),
         logged := logged acc +
            sum_list (map (\<lambda>(name, mgr). case GetCacheInfo mgr (w name) of
                           Inl err \<Rightarrow> {#Entry WarnLevel ''Failed to get cache info'' (Some err) [(''manager'', Str name)]#}
                         | Inr cacheInfo \<Rightarrow> {#}) xs)\<rparr>"
  by (rule foldl_gathered) (auto simp: cacheInfoTask_def split: sum.splits)

lemma GetAllCacheInfo_fst:
  "fst (GetAllCacheInfo arrival srt f w) =
     Inr (srt (\<lambda>a b. CacheInfo.Manager a < CacheInfo.Manager b)
            (concat (map (\<lambda>(name, mgr). case GetCacheInfo mgr (w name) of
                           Inl err \<Rightarrow> [] | Inr cacheInfo \<Rightarrow> [cacheInfo])
                      (arrival (GetAvailableManagers f w)))))"
  by (simp add: GetAllCacheInfo_def Let_def cacheInfo_fold)

text \<open>
  C10. When the call of \<^verbatim>\<open>GetCacheInfo\<close> fails on every available backend,
  \<^verbatim>\<open>GetAllCacheInfo\<close> returns the empty list and no error, whatever the order in which
  the tasks arrive and whatever the sort does with equal keys.
\<close>

theorem GetAllCacheInfo_all_fail:
  assumes ord: "permutes arrival"
    and srt: "sorts_by srt CacheInfo.Manager"
    and fail: "\<forall>(name, mgr) \<in> set (GetAvailableManagers f w). \<exists>err. GetCacheInfo mgr (w name) = Inl err"
  shows "fst (GetAllCacheInfo arrival srt f w) = Inr []"
proof -
  have c: "concat (map (\<lambda>(name, mgr). case GetCacheInfo mgr (w name) of
                       Inl err \<Rightarrow> [] | Inr cacheInfo \<Rightarrow> [cacheInfo])
                  (arrival (GetAvailableManagers f w))) = []"
  proof (rule concat_map_Nil)
    fix x assume "x \<in> set (arrival (GetAvailableManagers f w))"
    then have "x \<in> set (GetAvailableManagers f w)" using permutes_set[OF ord] by simp
    then show "(case x of (name, mgr) \<Rightarrow> case GetCacheInfo mgr (w name) of
                 Inl err \<Rightarrow> [] | Inr cacheInfo \<Rightarrow> [cacheInfo]) = []"
      using fail by (cases x) auto
  qed
  show ?thesis unfolding GetAllCacheInfo_fst c using sorts_by_Nil[OF srt] by simp
qed

theorem GetAllCacheInfo_all_fail_witness:
  "length (GetAvailableManagers failingFactory freshState) = 2 \<and>
   fst (GetAllCacheInfo rev insertionSort failingFactory freshState) = Inr []"
proof -
  have "fst (GetAllCacheInfo rev insertionSort failingFactory freshState) = Inr []"
    by (rule GetAllCacheInfo_all_fail[OF permutes_rev sorts_by_insertionSort])
       (simp add: GetAvailableManagers_def failingFactory_def registerManagers_def
          countingBackend_def)
  then show ?thesis
    by (simp add: GetAvailableManagers_def failingFactory_def registerManagers_def
          countingBackend_def)
qed

text \<open>
  C7. For a name that is not registered, \<^verbatim>\<open>GetCacheInfo\<close> of the cache service fails
  with the not-found error of the factory, the one \<^verbatim>\<open>GetManager\<close> returns for that
  name (its text is \<^verbatim>\<open>package manager '<name>' not found\<close>), whatever is registered
  and whatever is available: the lookup comes before the probe of availability and before
  any call of a backend.
\<close>

theorem GetCacheInfo_unknown_manager:
  assumes "map_of (managers f) name = None"
  shows "CacheService_GetCacheInfo f w name =
           Inl (Errorf (''package manager '' @ [CHR 0x27] @ name @ [CHR 0x27] @ '' not found'') None)
         \<and> GetManager f name =
           Inl (Errorf (''package manager '' @ [CHR 0x27] @ name @ [CHR 0x27] @ '' not found'') None)"
  using assms by (simp add: CacheService_GetCacheInfo_def GetManager_def)

theorem GetCacheInfo_unknown_manager_witness:
  "map_of (managers failingFactory) ''doesnotexist'' = None \<and>
   CacheService_GetCacheInfo failingFactory freshState ''doesnotexist'' =
     Inl (Errorf ''package manager 'doesnotexist' not found'' None)"
proof -
  have h: "map_of (managers failingFactory) ''doesnotexist'' = None"
    by (simp add: failingFactory_def registerManagers_def)
  show ?thesis
    using GetCacheInfo_unknown_manager[OF h, of freshState] h by simp
qed

subsection \<open>Deduplication of packages\<close>

lemma removeDuplicateLoop_append:
  "removeDuplicateLoop seen unique packages = unique @ removeDuplicateLoop seen [] packages"
proof (induction packages arbitrary: seen unique)
  case Nil show ?case by simp
next
  case (Cons pkg packages)
  show ?case
  proof (cases "packageKey pkg \<in> seen")
    case True
    then show ?thesis using Cons.IH[of seen unique] by simp
  next
    case False
    then show ?thesis
      using Cons.IH[of "insert (packageKey pkg) seen" "unique @ [pkg]"]
            Cons.IH[of "insert (packageKey pkg) seen" "[pkg]"] by simp
  qed
qed

lemma removeDuplicateLoop_Cons:
  "removeDuplicateLoop seen [] (pkg # packages) =
     (if packageKey pkg \<in> seen then removeDuplicateLoop seen [] packages
      else pkg # removeDuplicateLoop (insert (packageKey pkg) seen) [] packages)"
  using removeDuplicateLoop_append[of "insert (packageKey pkg) seen" "[pkg]" packages] by simp

lemma removeDuplicateLoop_unseen:
  "p \<in> set (removeDuplicateLoop seen [] packages) \<Longrightarrow> packageKey p \<notin> seen \<and> p \<in> set packages"
  by (induction packages arbitrary: seen) (auto simp: removeDuplicateLoop_Cons simp del: removeDuplicateLoop.simps(2) split: if_splits)

lemma removeDuplicateLoop_distinct:
  "distinct (map packageKey (removeDuplicateLoop seen [] packages))"
  by (induction packages arbitrary: seen) (auto simp: removeDuplicateLoop_Cons simp del: removeDuplicateLoop.simps(2) dest: removeDuplicateLoop_unseen)

lemma removeDuplicateLoop_keys:
  "packageKey ` set (removeDuplicateLoop seen [] packages) = packageKey ` set packages - seen"
  by (induction packages arbitrary: seen) (auto simp: removeDuplicateLoop_Cons simp del: removeDuplicateLoop.simps(2))

lemma removeDuplicatePackages_subset: "set (removeDuplicatePackages ps) \<subseteq> set ps"
  unfolding removeDuplicatePackages_def using removeDuplicateLoop_unseen by blast

lemma removeDuplicatePackages_keys: "packageKey ` set (removeDuplicatePackages ps) = packageKey ` set ps"
  unfolding removeDuplicatePackages_def by (simp add: removeDuplicateLoop_keys)

lemma removeDuplicatePackages_distinct: "distinct (map packageKey (removeDuplicatePackages ps))"
  unfolding removeDuplicatePackages_def by (rule removeDuplicateLoop_distinct)

lemma installed_fold:
  "foldl (\<lambda>acc (name, mgr). installedPackagesTask projectPath name mgr (w name) acc) acc xs =
     acc\<lparr>collected := collected acc @
            concat (map (\<lambda>(name, mgr). case GetInstalledPackages mgr (w name) projectPath of
                           Inl err \<Rightarrow> [] | Inr packages \<Rightarrow> packages) xs),
         errors := errors acc @
            concat (map (\<lambda>(name, mgr). case GetInstalledPackages mgr (w name) projectPath of
                           Inl err \<Rightarrow> if err = ErrProjectNotFound then []
                              else [Errorf (''failed to get packages from '' @ name @ '': '' @ Error err) (Some err)]
                         | Inr packages \<Rightarrow> []) xs),
         logged := logged acc +
            sum_list (map (\<lambda>(name, mgr). case GetInstalledPackages mgr (w name) projectPath of
                           Inl err \<Rightarrow> if err = ErrProjectNotFound
                              then {#Entry DebugLevel ''No project found for this manager'' None [(''manager'', Str name)]#}
                              else {#Entry WarnLevel ''Failed to get packages'' (Some err) [(''manager'', Str name)]#}
                         | Inr packages \<Rightarrow> {#}) xs)\<rparr>"
  by (rule foldl_gathered) (auto simp: installedPackagesTask_def split: sum.splits)

lemma gathered_log:
  assumes "\<And>x. l x + mset (map h (e x)) = c x"
  shows "sum_list (map l xs) + mset (map h (concat (map e xs))) = sum_list (map c xs)"
proof (induction xs)
  case Nil show ?case by simp
next
  case (Cons x xs)
  have "sum_list (map l (x # xs)) + mset (map h (concat (map e (x # xs)))) =
        (l x + mset (map h (e x))) + (sum_list (map l xs) + mset (map h (concat (map e xs))))"
    by (simp add: ac_simps)
  also have "\<dots> = c x + sum_list (map c xs)"
    by (simp only: Cons.IH assms[of x])
  finally show ?case by simp
qed

lemma GetAllPackages_fst:
  assumes "projectPath \<noteq> []"
  shows "fst (GetAllPackages arrival srt f w projectPath) =
     Inr (srt (\<lambda>a b. Package.Name a < Package.Name b)
            (removeDuplicatePackages
              (concat (map (\<lambda>(name, mgr). case GetInstalledPackages mgr (w name) projectPath of
                           Inl err \<Rightarrow> [] | Inr packages \<Rightarrow> packages)
                      (arrival (GetAvailableManagers f w))))))"
  using assms by (simp add: GetAllPackages_def Let_def installed_fold)

lemma GetAllPackages_snd:
  assumes path: "projectPath \<noteq> []" and ord: "permutes arrival"
  shows "snd (GetAllPackages arrival srt f w projectPath) =
      sum_list (map (\<lambda>(name, mgr). case GetInstalledPackages mgr (w name) projectPath of
                  Inl err \<Rightarrow> if err = ErrProjectNotFound
                     then {#Entry DebugLevel ''No project found for this manager'' None [(''manager'', Str name)]#}
                     else {#Entry WarnLevel ''Failed to get packages'' (Some err) [(''manager'', Str name)],
                            Entry WarnLevel ''Package retrieval error''
                              (Some (Errorf (''failed to get packages from '' @ name @ '': '' @ Error err) (Some err))) []#}
                | Inr packages \<Rightarrow> {#}) (GetAvailableManagers f w))"
    (is "_ = sum_list (map ?c _)")
proof -
  let ?A = "arrival (GetAvailableManagers f w)"
  let ?l = "\<lambda>(name, mgr). case GetInstalledPackages mgr (w name) projectPath of
                           Inl err \<Rightarrow> if err = ErrProjectNotFound
                              then {#Entry DebugLevel ''No project found for this manager'' None [(''manager'', Str name)]#}
                              else {#Entry WarnLevel ''Failed to get packages'' (Some err) [(''manager'', Str name)]#}
                         | Inr packages \<Rightarrow> {#}"
  let ?e = "\<lambda>(name, mgr). case GetInstalledPackages mgr (w name) projectPath of
                           Inl err \<Rightarrow> if err = ErrProjectNotFound then []
                              else [Errorf (''failed to get packages from '' @ name @ '': '' @ Error err) (Some err)]
                         | Inr packages \<Rightarrow> []"
  let ?h = "\<lambda>err. Entry WarnLevel ''Package retrieval error'' (Some err) []"
  have "snd (GetAllPackages arrival srt f w projectPath) =
          sum_list (map ?l ?A) + mset (map ?h (concat (map ?e ?A)))"
    using path by (simp add: GetAllPackages_def Let_def installed_fold)
  also have "\<dots> = sum_list (map ?c ?A)"
    by (rule gathered_log) (auto split: sum.splits)
  also have "\<dots> = sum_list (map ?c (GetAvailableManagers f w))"
    by (rule sum_list_map_cong_mset) (rule permutes_mset[OF ord])
  finally show ?thesis .
qed

lemma GetAllPackages_error:
  "fst (GetAllPackages arrival srt f w []) =
     Inl (ValidationError ''projectPath'' [] ''project path cannot be empty'')"
  by (simp add: GetAllPackages_def NewValidationError_def)

lemma global_fold:
  "foldl (\<lambda>acc (name, mgr). globalPackagesTask name mgr (w name) acc) acc xs =
     acc\<lparr>collected := collected acc @
            concat (map (\<lambda>(name, mgr). case GetGlobalPackages mgr (w name) of
                           Inl err \<Rightarrow> [] | Inr packages \<Rightarrow> packages) xs),
         errors := errors acc @
            concat (map (\<lambda>(name, mgr). case GetGlobalPackages mgr (w name) of
                           Inl err \<Rightarrow> [Errorf (''failed to get global packages from '' @ name @ '': '' @ Error err) (Some err)]
                         | Inr packages \<Rightarrow> []) xs),
         logged := logged acc +
            sum_list (map (\<lambda>(name, mgr). case GetGlobalPackages mgr (w name) of
                           Inl err \<Rightarrow> {#Entry WarnLevel ''Failed to get global packages'' (Some err) [(''manager'', Str name)]#}
                         | Inr packages \<Rightarrow> {#}) xs)\<rparr>"
  by (rule foldl_gathered) (auto simp: globalPackagesTask_def split: sum.splits)

lemma GetGlobalPackages_fst:
  "fst (PackageService_GetGlobalPackages arrival srt f w) =
     Inr (srt (\<lambda>a b. Package.Name a < Package.Name b)
            (removeDuplicatePackages
              (concat (map (\<lambda>(name, mgr). case GetGlobalPackages mgr (w name) of
                           Inl err \<Rightarrow> [] | Inr packages \<Rightarrow> packages)
                      (arrival (GetAvailableManagers f w))))))"
  by (simp add: PackageService_GetGlobalPackages_def Let_def global_fold)

lemma config_fold:
  "foldl (\<lambda>acc (name, mgr). configTask name mgr (w name) acc) acc xs =
     acc\<lparr>collected := collected acc @
            concat (map (\<lambda>(name, mgr). case GetConfig mgr (w name) of
                           Inl err \<Rightarrow> [] | Inr config \<Rightarrow> [config]) xs),
         errors := errors acc @
            concat (map (\<lambda>(name, mgr). case GetConfig mgr (w name) of
                           Inl err \<Rightarrow> [Errorf (''failed to get config for '' @ name @ '': '' @ Error err) (Some err)]
                         | Inr config \<Rightarrow> []) xs),
         logged := logged acc +
            sum_list (map (\<lambda>(name, mgr). case GetConfig mgr (w name) of
                           Inl err \<Rightarrow> {#Entry WarnLevel ''Failed to get config'' (Some err) [(''manager'', Str name)]#}
                         | Inr config \<Rightarrow> {#}) xs)\<rparr>"
  by (rule foldl_gathered) (auto simp: configTask_def split: sum.splits)

lemma GetAllConfigs_fst:
  "fst (GetAllConfigs arrival srt f w) =
     Inr (srt (\<lambda>a b. Config.Manager a < Config.Manager b)
            (concat (map (\<lambda>(name, mgr). case GetConfig mgr (w name) of
                           Inl err \<Rightarrow> [] | Inr config \<Rightarrow> [config])
                      (arrival (GetAvailableManagers f w)))))"
  by (simp add: GetAllConfigs_def Let_def config_fold)

lemma GetAllConfigs_snd:
  assumes ord: "permutes arrival"
  shows "snd (GetAllConfigs arrival srt f w) =
      sum_list (map (\<lambda>(name, mgr). case GetConfig mgr (w name) of
                  Inl err \<Rightarrow>
                    {#Entry WarnLevel ''Failed to get config'' (Some err) [(''manager'', Str name)],
                      Entry WarnLevel ''Config retrieval error''
                        (Some (Errorf (''failed to get config for '' @ name @ '': '' @ Error err) (Some err))) []#}
                | Inr config \<Rightarrow> {#}) (GetAvailableManagers f w))"
    (is "_ = sum_list (map ?c _)")
proof -
  let ?A = "arrival (GetAvailableManagers f w)"
  let ?l = "\<lambda>(name, mgr). case GetConfig mgr (w name) of
                           Inl err \<Rightarrow> {#Entry WarnLevel ''Failed to get config'' (Some err) [(''manager'', Str name)]#}
                         | Inr config \<Rightarrow> {#}"
  let ?e = "\<lambda>(name, mgr). case GetConfig mgr (w name) of
                           Inl err \<Rightarrow> [Errorf (''failed to get config for '' @ name @ '': '' @ Error err) (Some err)]
                         | Inr config \<Rightarrow> []"
  let ?h = "\<lambda>err. Entry WarnLevel ''Config retrieval error'' (Some err) []"
  have "snd (GetAllConfigs arrival srt f w) =
          sum_list (map ?l ?A) + mset (map ?h (concat (map ?e ?A)))"
    by (simp add: GetAllConfigs_def Let_def config_fold)
  also have "\<dots> = sum_list (map ?c ?A)"
    by (rule gathered_log) (auto split: sum.splits)
  also have "\<dots> = sum_list (map ?c (GetAvailableManagers f w))"
    by (rule sum_list_map_cong_mset) (rule permutes_mset[OF ord])
  finally show ?thesis .
qed

lemma GetAllCacheInfo_snd:
  assumes ord: "permutes arrival"
  shows "snd (GetAllCacheInfo arrival srt f w) =
      sum_list (map (\<lambda>(name, mgr). case GetCacheInfo mgr (w name) of
                  Inl err \<Rightarrow>
                    {#Entry WarnLevel ''Failed to get cache info'' (Some err) [(''manager'', Str name)],
                      Entry WarnLevel ''Cache info retrieval error''
                        (Some (Errorf (''failed to get cache info for '' @ name @ '': '' @ Error err) (Some err))) []#}
                | Inr cacheInfo \<Rightarrow> {#}) (GetAvailableManagers f w))"
    (is "_ = sum_list (map ?c _)")
proof -
  let ?A = "arrival (GetAvailableManagers f w)"
  let ?l = "\<lambda>(name, mgr). case GetCacheInfo mgr (w name) of
                           Inl err \<Rightarrow> {#Entry WarnLevel ''Failed to get cache info'' (Some err) [(''manager'', Str name)]#}
                         | Inr cacheInfo \<Rightarrow> {#}"
  let ?e = "\<lambda>(name, mgr). case GetCacheInfo mgr (w name) of
                           Inl err \<Rightarrow> [Errorf (''failed to get cache info for '' @ name @ '': '' @ Error err) (Some err)]
                         | Inr cacheInfo \<Rightarrow> []"
  let ?h = "\<lambda>err. Entry WarnLevel ''Cache info retrieval error'' (Some err) []"
  have "snd (GetAllCacheInfo arrival srt f w) =
          sum_list (map ?l ?A) + mset (map ?h (concat (map ?e ?A)))"
    by (simp add: GetAllCacheInfo_def Let_def cacheInfo_fold)
  also have "\<dots> = sum_list (map ?c ?A)"
    by (rule gathered_log) (auto split: sum.splits)
  also have "\<dots> = sum_list (map ?c (GetAvailableManagers f w))"
    by (rule sum_list_map_cong_mset) (rule permutes_mset[OF ord])
  finally show ?thesis .
qed

lemma projects_fold:
  "foldl (\<lambda>acc (name, mgr). projectsTask expandedPath name mgr (w name) acc) acc xs =
     acc\<lparr>collected := collected acc @
            concat (map (\<lambda>(name, mgr). case GetProjects mgr (w name) expandedPath of
                           Inl err \<Rightarrow> [] | Inr projects \<Rightarrow> projects) xs),
         errors := errors acc @
            concat (map (\<lambda>(name, mgr). case GetProjects mgr (w name) expandedPath of
                           Inl err \<Rightarrow> [Errorf (''failed to scan projects with '' @ name @ '': '' @ Error err) (Some err)]
                         | Inr projects \<Rightarrow> []) xs),
         logged := logged acc +
            sum_list (map (\<lambda>(name, mgr). case GetProjects mgr (w name) expandedPath of
                           Inl err \<Rightarrow> {#Entry WarnLevel ''Failed to scan projects'' (Some err) [(''manager'', Str name)]#}
                         | Inr projects \<Rightarrow> {#}) xs)\<rparr>"
  by (rule foldl_gathered) (auto simp: projectsTask_def split: sum.splits)

lemma scanAll_collected:
  "collected (scanAll arrival f w expandedPath) =
     concat (map (\<lambda>(name, mgr). case GetProjects mgr (w name) expandedPath of
                    Inl err \<Rightarrow> [] | Inr projects \<Rightarrow> projects)
               (arrival (GetAvailableManagers f w)))"
  by (simp add: scanAll_def projects_fold)

lemma ScanProjects_cases:
  "(\<exists>err. fst (ScanProjects grow arrival rng srt h f w mem rootPath) = Inl err) \<or>
   (\<exists>expandedPath. ExpandPath h rootPath = Inr expandedPath \<and> rootPath \<noteq> [] \<and>
      IsDir h expandedPath \<and>
      fst (ScanProjects grow arrival rng srt h f w mem rootPath) =
        Inr (srt (\<lambda>a b. Project.Path a < Project.Path b)
               (fst (mergeProjects grow rng mem (collected (scanAll arrival f w expandedPath))))))"
  by (auto simp: ScanProjects_def Let_def split: sum.splits prod.splits)

lemma ScanProjects_ok:
  assumes "rootPath \<noteq> []" "ExpandPath h rootPath = Inr expandedPath" "IsDir h expandedPath"
  shows "fst (ScanProjects grow arrival rng srt h f w mem rootPath) =
        Inr (srt (\<lambda>a b. Project.Path a < Project.Path b)
               (fst (mergeProjects grow rng mem (collected (scanAll arrival f w expandedPath)))))"
    and "fst (snd (ScanProjects grow arrival rng srt h f w mem rootPath)) =
        snd (mergeProjects grow rng mem (collected (scanAll arrival f w expandedPath)))"
  using assms
  by (auto simp: ScanProjects_def Let_def PathExists_def IsDir_def split: sum.splits prod.splits)

text \<open>
  C2. Every list an aggregate returns is in ascending order of its key, for every order in
  which the tasks arrive: \<^verbatim>\<open>GetAllCacheInfo\<close> and \<^verbatim>\<open>GetAllConfigs\<close> by manager
  name, \<^verbatim>\<open>GetAllPackages\<close> and \<^verbatim>\<open>GetGlobalPackages\<close> by package name,
  \<^verbatim>\<open>ScanProjects\<close> by project path. The order \<open>arrival\<close> is not constrained at
  all; \<^verbatim>\<open>GetAllPackages\<close> and \<^verbatim>\<open>ScanProjects\<close> return a list unless they
  reject their argument.
\<close>

theorem aggregate_results_sorted:
  assumes srtC: "sorts_by srtC CacheInfo.Manager"
    and srtG: "sorts_by srtG Config.Manager"
    and srtP: "sorts_by srtP Package.Name"
    and srtJ: "sorts_by srtJ Project.Path"
  shows "(\<exists>cacheInfos. fst (GetAllCacheInfo arrival srtC f w) = Inr cacheInfos \<and>
            sorted (map CacheInfo.Manager cacheInfos)) \<and>
         (\<exists>configs. fst (GetAllConfigs arrival srtG f w) = Inr configs \<and>
            sorted (map Config.Manager configs)) \<and>
         (\<forall>packages. fst (GetAllPackages arrival srtP f w projectPath) = Inr packages \<longrightarrow>
            sorted (map Package.Name packages)) \<and>
         (\<exists>packages. fst (PackageService_GetGlobalPackages arrival srtP f w) = Inr packages \<and>
            sorted (map Package.Name packages)) \<and>
         (\<forall>projects. fst (ScanProjects grow arrival rng srtJ h f w mem rootPath) = Inr projects \<longrightarrow>
            sorted (map Project.Path projects))"
proof (intro conjI)
  show "\<exists>cacheInfos. fst (GetAllCacheInfo arrival srtC f w) = Inr cacheInfos \<and>
            sorted (map CacheInfo.Manager cacheInfos)"
    unfolding GetAllCacheInfo_fst using sorts_by_sorted[OF srtC] by blast
  show "\<exists>configs. fst (GetAllConfigs arrival srtG f w) = Inr configs \<and>
            sorted (map Config.Manager configs)"
    unfolding GetAllConfigs_fst using sorts_by_sorted[OF srtG] by blast
  show "\<forall>packages. fst (GetAllPackages arrival srtP f w projectPath) = Inr packages \<longrightarrow>
            sorted (map Package.Name packages)"
  proof (cases "projectPath = []")
    case True
    then show ?thesis by (simp add: GetAllPackages_error)
  next
    case False
    show ?thesis unfolding GetAllPackages_fst[OF False] using sorts_by_sorted[OF srtP] by auto
  qed
  show "\<exists>packages. fst (PackageService_GetGlobalPackages arrival srtP f w) = Inr packages \<and>
            sorted (map Package.Name packages)"
    unfolding GetGlobalPackages_fst using sorts_by_sorted[OF srtP] by blast
  show "\<forall>projects. fst (ScanProjects grow arrival rng srtJ h f w mem rootPath) = Inr projects \<longrightarrow>
            sorted (map Project.Path projects)"
    using ScanProjects_cases[of grow arrival rng srtJ h f w mem rootPath] sorts_by_sorted[OF srtJ]
    by auto
qed

lemmas example_defs =
  mixedFactory_def registerManagers_def countingBackend_def exampleCache_def
  examplePackage_def exampleConfig_def exampleProject_def freshState_def
  GetAvailableManagers_def exampleHost_def

theorem aggregate_results_sorted_witness:
  "fst (GetAllCacheInfo rev insertionSort mixedFactory freshState) =
     Inr [exampleCache ''npm'' 5, exampleCache ''yarn'' 5] \<and>
   fst (GetAllConfigs rev insertionSort mixedFactory freshState) =
     Inr [exampleConfig ''npm'', exampleConfig ''yarn''] \<and>
   fst (GetAllPackages rev insertionSort mixedFactory freshState ''/work/app'') =
     Inr [examplePackage ''lodash'' ''4.17.21'' ''npm'', examplePackage ''react'' ''18.2.0'' ''npm''] \<and>
   fst (PackageService_GetGlobalPackages rev insertionSort mixedFactory freshState) =
     Inr [examplePackage ''lodash'' ''4.17.21'' ''npm'', examplePackage ''react'' ''18.2.0'' ''npm''] \<and>
   fst (ScanProjects exampleGrow rev rev insertionSort exampleHost mixedFactory freshState
          exampleMemory ''/work'') =
     Inr [exampleProject ''/work/app'' \<lparr>base = 3, off = 0, len = 2, cap = 2\<rparr> ''/work/app/yarn.lock'',
          exampleProject ''/work/lib'' (literalSlice 1 1) ''/work/lib/yarn.lock''] \<and>
   sorted (map Project.Path
     [exampleProject ''/work/app'' \<lparr>base = 3, off = 0, len = 2, cap = 2\<rparr> ''/work/app/yarn.lock'',
      exampleProject ''/work/lib'' (literalSlice 1 1) ''/work/lib/yarn.lock''])"
proof -
  note t = aggregate_results_sorted[OF sorts_by_insertionSort sorts_by_insertionSort
      sorts_by_insertionSort sorts_by_insertionSort,
      of rev mixedFactory freshState "''/work/app''" exampleGrow rev exampleHost exampleMemory
        "''/work''"]
  have c: "fst (GetAllCacheInfo rev insertionSort mixedFactory freshState) =
     Inr [exampleCache ''npm'' 5, exampleCache ''yarn'' 5]"
    by (simp add: GetAllCacheInfo_fst example_defs insertionSort_def)
  have g: "fst (GetAllConfigs rev insertionSort mixedFactory freshState) =
     Inr [exampleConfig ''npm'', exampleConfig ''yarn'']"
    by (simp add: GetAllConfigs_fst example_defs insertionSort_def)
  have p: "fst (GetAllPackages rev insertionSort mixedFactory freshState ''/work/app'') =
     Inr [examplePackage ''lodash'' ''4.17.21'' ''npm'', examplePackage ''react'' ''18.2.0'' ''npm'']"
    by (simp add: GetAllPackages_fst example_defs insertionSort_def removeDuplicatePackages_def
          packageKey_def)
  have q: "fst (PackageService_GetGlobalPackages rev insertionSort mixedFactory freshState) =
     Inr [examplePackage ''lodash'' ''4.17.21'' ''npm'', examplePackage ''react'' ''18.2.0'' ''npm'']"
    by (simp add: GetGlobalPackages_fst example_defs insertionSort_def removeDuplicatePackages_def
          packageKey_def)
  have j: "fst (ScanProjects exampleGrow rev rev insertionSort exampleHost mixedFactory freshState
          exampleMemory ''/work'') =
     Inr [exampleProject ''/work/app'' \<lparr>base = 3, off = 0, len = 2, cap = 2\<rparr> ''/work/app/yarn.lock'',
          exampleProject ''/work/lib'' (literalSlice 1 1) ''/work/lib/yarn.lock'']"
    by (simp add: ScanProjects_def ExpandPath_def PathExists_def IsDir_def Let_def
          scanAll_collected example_defs insertionSort_def mergeProjects_def mergeInto_def
          mergeManagers_def mergeManager_def append_slice_def elems_def index_slice_def
          literalSlice_def exampleMemory_def exampleGrow_def)
  from t j have "sorted (map Project.Path
     [exampleProject ''/work/app'' \<lparr>base = 3, off = 0, len = 2, cap = 2\<rparr> ''/work/app/yarn.lock'',
      exampleProject ''/work/lib'' (literalSlice 1 1) ''/work/lib/yarn.lock''])"
    by blast
  with c g p q j show ?thesis by blast
qed

text \<open>
  C1. For a project path that is not empty, \<^verbatim>\<open>GetAllPackages\<close> returns a list and no
  error whatever the calls of \<^verbatim>\<open>GetInstalledPackages\<close> return: the list is the
  packages of the available backends whose call succeeded, deduplicated (and sorted, C2).
  A backend that returns \<^verbatim>\<open>ErrProjectNotFound\<close> leaves one entry in the log, at the
  debug level; a backend that returns another error leaves two warnings, and neither
  contributes a package. \<^verbatim>\<open>GetAllCacheInfo\<close> and \<^verbatim>\<open>GetAllConfigs\<close> return the
  records of the available backends whose call succeeded, and no error.
\<close>

theorem aggregate_reads_absorb_failures:
  assumes ord: "permutes arrival"
    and srtP: "sorts_by srtP Package.Name"
    and srtC: "sorts_by srtC CacheInfo.Manager"
    and srtG: "sorts_by srtG Config.Manager"
    and path: "projectPath \<noteq> []"
  shows
   "(\<exists>packages. fst (GetAllPackages arrival srtP f w projectPath) = Inr packages \<and>
       mset packages =
         mset (removeDuplicatePackages
                (concat (map (\<lambda>(name, mgr). case GetInstalledPackages mgr (w name) projectPath of
                                Inl err \<Rightarrow> [] | Inr found \<Rightarrow> found)
                           (arrival (GetAvailableManagers f w))))) \<and>
       set packages \<subseteq>
         set (concat (map (\<lambda>(name, mgr). case GetInstalledPackages mgr (w name) projectPath of
                                Inl err \<Rightarrow> [] | Inr found \<Rightarrow> found)
                           (GetAvailableManagers f w))) \<and>
       packageKey ` set packages =
         packageKey ` set (concat (map (\<lambda>(name, mgr).
                                case GetInstalledPackages mgr (w name) projectPath of
                                Inl err \<Rightarrow> [] | Inr found \<Rightarrow> found)
                           (GetAvailableManagers f w)))) \<and>
    snd (GetAllPackages arrival srtP f w projectPath) =
      sum_list (map (\<lambda>(name, mgr). case GetInstalledPackages mgr (w name) projectPath of
                  Inl err \<Rightarrow> if err = ErrProjectNotFound
                     then {#Entry DebugLevel ''No project found for this manager'' None [(''manager'', Str name)]#}
                     else {#Entry WarnLevel ''Failed to get packages'' (Some err) [(''manager'', Str name)],
                            Entry WarnLevel ''Package retrieval error''
                              (Some (Errorf (''failed to get packages from '' @ name @ '': '' @ Error err) (Some err))) []#}
                | Inr found \<Rightarrow> {#}) (GetAvailableManagers f w)) \<and>
    (\<exists>cacheInfos. fst (GetAllCacheInfo arrival srtC f w) = Inr cacheInfos \<and>
       mset cacheInfos =
         mset (concat (map (\<lambda>(name, mgr). case GetCacheInfo mgr (w name) of
                              Inl err \<Rightarrow> [] | Inr cacheInfo \<Rightarrow> [cacheInfo])
                         (GetAvailableManagers f w)))) \<and>
    (\<exists>configs. fst (GetAllConfigs arrival srtG f w) = Inr configs \<and>
       mset configs =
         mset (concat (map (\<lambda>(name, mgr). case GetConfig mgr (w name) of
                              Inl err \<Rightarrow> [] | Inr config \<Rightarrow> [config])
                         (GetAvailableManagers f w))))"
proof (intro conjI)
  let ?g = "\<lambda>(name, mgr). case GetInstalledPackages mgr (w name) projectPath of
              Inl err \<Rightarrow> [] | Inr found \<Rightarrow> found"
  let ?A = "arrival (GetAvailableManagers f w)"
  have m: "mset (concat (map ?g ?A)) = mset (concat (map ?g (GetAvailableManagers f w)))"
    by (rule mset_concat_map_cong) (rule permutes_mset[OF ord])
  then have st: "set (concat (map ?g ?A)) = set (concat (map ?g (GetAvailableManagers f w)))"
    by (rule mset_eq_setD)
  let ?ps = "srtP (\<lambda>a b. Package.Name a < Package.Name b) (removeDuplicatePackages (concat (map ?g ?A)))"
  have "fst (GetAllPackages arrival srtP f w projectPath) = Inr ?ps"
    by (rule GetAllPackages_fst[OF path])
  moreover have "mset ?ps = mset (removeDuplicatePackages (concat (map ?g ?A)))"
    by (rule sorts_by_mset[OF srtP])
  moreover have "set ?ps \<subseteq> set (concat (map ?g (GetAvailableManagers f w)))"
    unfolding sorts_by_set[OF srtP] st[symmetric] by (rule removeDuplicatePackages_subset)
  moreover have "packageKey ` set ?ps =
      packageKey ` set (concat (map ?g (GetAvailableManagers f w)))"
    unfolding sorts_by_set[OF srtP] st[symmetric] by (rule removeDuplicatePackages_keys)
  ultimately show "\<exists>packages. fst (GetAllPackages arrival srtP f w projectPath) = Inr packages \<and>
       mset packages = mset (removeDuplicatePackages (concat (map ?g ?A))) \<and>
       set packages \<subseteq> set (concat (map ?g (GetAvailableManagers f w))) \<and>
       packageKey ` set packages =
         packageKey ` set (concat (map ?g (GetAvailableManagers f w)))"
    by blast
next
  show "snd (GetAllPackages arrival srtP f w projectPath) =
      sum_list (map (\<lambda>(name, mgr). case GetInstalledPackages mgr (w name) projectPath of
                  Inl err \<Rightarrow> if err = ErrProjectNotFound
                     then {#Entry DebugLevel ''No project found for this manager'' None [(''manager'', Str name)]#}
                     else {#Entry WarnLevel ''Failed to get packages'' (Some err) [(''manager'', Str name)],
                            Entry WarnLevel ''Package retrieval error''
                              (Some (Errorf (''failed to get packages from '' @ name @ '': '' @ Error err) (Some err))) []#}
                | Inr found \<Rightarrow> {#}) (GetAvailableManagers f w))"
    by (rule GetAllPackages_snd[OF path ord])
next
  let ?g = "\<lambda>(name, mgr). case GetCacheInfo mgr (w name) of
              Inl err \<Rightarrow> [] | Inr cacheInfo \<Rightarrow> [cacheInfo]"
  have "mset (srtC (\<lambda>a b. CacheInfo.Manager a < CacheInfo.Manager b)
                (concat (map ?g (arrival (GetAvailableManagers f w))))) =
        mset (concat (map ?g (GetAvailableManagers f w)))"
    unfolding sorts_by_mset[OF srtC]
    by (rule mset_concat_map_cong) (rule permutes_mset[OF ord])
  then show "\<exists>cacheInfos. fst (GetAllCacheInfo arrival srtC f w) = Inr cacheInfos \<and>
       mset cacheInfos = mset (concat (map ?g (GetAvailableManagers f w)))"
    unfolding GetAllCacheInfo_fst by blast
next
  let ?g = "\<lambda>(name, mgr). case GetConfig mgr (w name) of
              Inl err \<Rightarrow> [] | Inr config \<Rightarrow> [config]"
  have "mset (srtG (\<lambda>a b. Config.Manager a < Config.Manager b)
                (concat (map ?g (arrival (GetAvailableManagers f w))))) =
        mset (concat (map ?g (GetAvailableManagers f w)))"
    unfolding sorts_by_mset[OF srtG]
    by (rule mset_concat_map_cong) (rule permutes_mset[OF ord])
  then show "\<exists>configs. fst (GetAllConfigs arrival srtG f w) = Inr configs \<and>
       mset configs = mset (concat (map ?g (GetAvailableManagers f w)))"
    unfolding GetAllConfigs_fst by blast
qed

theorem aggregate_reads_absorb_failures_witness:
  "fst (GetAllPackages rev insertionSort mixedFactory freshState ''/work/app'') =
     Inr [examplePackage ''lodash'' ''4.17.21'' ''npm'', examplePackage ''react'' ''18.2.0'' ''npm''] \<and>
   snd (GetAllPackages rev insertionSort mixedFactory freshState ''/work/app'') =
     {#Entry DebugLevel ''No project found for this manager'' None [(''manager'', Str ''pnpm'')],
       Entry WarnLevel ''Failed to get packages'' (Some ErrNetworkError) [(''manager'', Str ''yarn'')],
       Entry WarnLevel ''Package retrieval error''
         (Some (Errorf ''failed to get packages from yarn: network error'' (Some ErrNetworkError))) []#} \<and>
   fst (GetAllCacheInfo rev insertionSort mixedFactory freshState) =
     Inr [exampleCache ''npm'' 5, exampleCache ''yarn'' 5] \<and>
   fst (GetAllConfigs rev insertionSort mixedFactory freshState) =
     Inr [exampleConfig ''npm'', exampleConfig ''yarn'']"
proof -
  have path: "''/work/app'' \<noteq> []" by simp
  note t = aggregate_reads_absorb_failures[OF permutes_rev sorts_by_insertionSort
      sorts_by_insertionSort sorts_by_insertionSort path, of mixedFactory freshState]
  from t have "snd (GetAllPackages rev insertionSort mixedFactory freshState ''/work/app'') =
      sum_list (map (\<lambda>(name, mgr). case GetInstalledPackages mgr (freshState name) ''/work/app'' of
                  Inl err \<Rightarrow> if err = ErrProjectNotFound
                     then {#Entry DebugLevel ''No project found for this manager'' None [(''manager'', Str name)]#}
                     else {#Entry WarnLevel ''Failed to get packages'' (Some err) [(''manager'', Str name)],
                            Entry WarnLevel ''Package retrieval error''
                              (Some (Errorf (''failed to get packages from '' @ name @ '': '' @ Error err) (Some err))) []#}
                | Inr found \<Rightarrow> {#}) (GetAvailableManagers mixedFactory freshState))"
    by blast
  also have "\<dots> =
     {#Entry DebugLevel ''No project found for this manager'' None [(''manager'', Str ''pnpm'')],
       Entry WarnLevel ''Failed to get packages'' (Some ErrNetworkError) [(''manager'', Str ''yarn'')],
       Entry WarnLevel ''Package retrieval error''
         (Some (Errorf ''failed to get packages from yarn: network error'' (Some ErrNetworkError))) []#}"
    by (simp add: example_defs)
  finally have l: "snd (GetAllPackages rev insertionSort mixedFactory freshState ''/work/app'') =
     {#Entry DebugLevel ''No project found for this manager'' None [(''manager'', Str ''pnpm'')],
       Entry WarnLevel ''Failed to get packages'' (Some ErrNetworkError) [(''manager'', Str ''yarn'')],
       Entry WarnLevel ''Package retrieval error''
         (Some (Errorf ''failed to get packages from yarn: network error'' (Some ErrNetworkError))) []#}" .
  have p: "fst (GetAllPackages rev insertionSort mixedFactory freshState ''/work/app'') =
     Inr [examplePackage ''lodash'' ''4.17.21'' ''npm'', examplePackage ''react'' ''18.2.0'' ''npm'']"
    by (simp add: GetAllPackages_fst example_defs insertionSort_def removeDuplicatePackages_def
          packageKey_def)
  have c: "fst (GetAllCacheInfo rev insertionSort mixedFactory freshState) =
     Inr [exampleCache ''npm'' 5, exampleCache ''yarn'' 5]"
    by (simp add: GetAllCacheInfo_fst example_defs insertionSort_def)
  have g: "fst (GetAllConfigs rev insertionSort mixedFactory freshState) =
     Inr [exampleConfig ''npm'', exampleConfig ''yarn'']"
    by (simp add: GetAllConfigs_fst example_defs insertionSort_def)
  from p l c g show ?thesis by blast
qed

subsection \<open>The cache summary\<close>

lemma statsStep_largest:
  "CacheManagerStats.Size (LargestCache (statsStep stats info)) =
     (if sint (CacheInfo.Size info) > sint (CacheManagerStats.Size (LargestCache stats))
      then CacheInfo.Size info else CacheManagerStats.Size (LargestCache stats))"
  "CacheStats.LargestCacheManager (statsStep stats info) =
     (if sint (CacheInfo.Size info) > sint (CacheManagerStats.Size (LargestCache stats))
      then CacheInfo.Manager info else CacheStats.LargestCacheManager stats)"
  by (simp_all add: statsStep_def Let_def statsOf_def)

lemma foldl_statsStep_largest:
  "sint (CacheManagerStats.Size (LargestCache (foldl statsStep zeroCacheStats infos))) =
     Max (insert 0 (sint ` CacheInfo.Size ` set infos)) \<and>
   (if \<exists>info \<in> set infos. 0 < sint (CacheInfo.Size info)
    then \<exists>k < length infos.
           CacheStats.LargestCacheManager (foldl statsStep zeroCacheStats infos) = CacheInfo.Manager (infos ! k) \<and>
           CacheManagerStats.Size (LargestCache (foldl statsStep zeroCacheStats infos)) = CacheInfo.Size (infos ! k) \<and>
           (\<forall>j < k. sint (CacheInfo.Size (infos ! j)) < sint (CacheInfo.Size (infos ! k)))
    else CacheStats.LargestCacheManager (foldl statsStep zeroCacheStats infos) = [] \<and>
         CacheManagerStats.Size (LargestCache (foldl statsStep zeroCacheStats infos)) = 0)"
proof (induction infos rule: rev_induct)
  case Nil
  show ?case by (simp add: zeroCacheStats_def)
next
  case (snoc x xs)
  let ?S = "foldl statsStep zeroCacheStats xs"
  let ?M = "Max (insert 0 (sint ` CacheInfo.Size ` set xs))"
  have cur: "sint (CacheManagerStats.Size (LargestCache ?S)) = ?M" using snoc.IH by blast
  have fin: "finite (insert 0 (sint ` CacheInfo.Size ` set xs))" by simp
  have Mge0: "0 \<le> ?M" using Max_ge[OF fin, of 0] by simp
  have Mge: "\<And>i. i \<in> set xs \<Longrightarrow> sint (CacheInfo.Size i) \<le> ?M"
    using Max_ge[OF fin] by simp
  have Mnew: "Max (insert 0 (sint ` CacheInfo.Size ` set (xs @ [x]))) = max (sint (CacheInfo.Size x)) ?M"
  proof -
    have "insert 0 (sint ` CacheInfo.Size ` set (xs @ [x])) =
          insert (sint (CacheInfo.Size x)) (insert 0 (sint ` CacheInfo.Size ` set xs))" by auto
    then show ?thesis using Max_insert[OF fin, of "sint (CacheInfo.Size x)"] by simp
  qed
  show ?case
  proof (cases "sint (CacheInfo.Size x) > ?M")
    case True
    have pos: "0 < sint (CacheInfo.Size x)" using True Mge0 by linarith
    have gt: "sint (CacheInfo.Size x) > sint (CacheManagerStats.Size (LargestCache ?S))"
      unfolding cur by (rule True)
    have sz: "CacheManagerStats.Size (LargestCache (foldl statsStep zeroCacheStats (xs @ [x]))) = CacheInfo.Size x"
      and mg: "CacheStats.LargestCacheManager (foldl statsStep zeroCacheStats (xs @ [x])) = CacheInfo.Manager x"
      using gt by (simp_all add: statsStep_largest)
    have older: "\<forall>j < length xs. sint (CacheInfo.Size ((xs @ [x]) ! j)) < sint (CacheInfo.Size x)"
    proof (intro allI impI)
      fix j assume j: "j < length xs"
      then have "sint (CacheInfo.Size (xs ! j)) \<le> ?M" using Mge[of "xs ! j"] by simp
      then show "sint (CacheInfo.Size ((xs @ [x]) ! j)) < sint (CacheInfo.Size x)"
        using True j by (simp add: nth_append)
    qed
    have ex: "\<exists>info \<in> set (xs @ [x]). 0 < sint (CacheInfo.Size info)" using pos by auto
    have "\<exists>k < length (xs @ [x]).
           CacheStats.LargestCacheManager (foldl statsStep zeroCacheStats (xs @ [x])) = CacheInfo.Manager ((xs @ [x]) ! k) \<and>
           CacheManagerStats.Size (LargestCache (foldl statsStep zeroCacheStats (xs @ [x]))) = CacheInfo.Size ((xs @ [x]) ! k) \<and>
           (\<forall>j < k. sint (CacheInfo.Size ((xs @ [x]) ! j)) < sint (CacheInfo.Size ((xs @ [x]) ! k)))"
      by (rule exI[of _ "length xs"]) (use sz mg older in simp)
    moreover have "sint (CacheManagerStats.Size (LargestCache (foldl statsStep zeroCacheStats (xs @ [x])))) =
        Max (insert 0 (sint ` CacheInfo.Size ` set (xs @ [x])))"
      unfolding Mnew sz max.absorb1[OF less_imp_le[OF True]] ..
    ultimately show ?thesis using ex by (simp only: if_True) 
  next
    case False
    have ngt: "\<not> sint (CacheInfo.Size x) > sint (CacheManagerStats.Size (LargestCache ?S))"
      unfolding cur by (rule False)
    have sz: "CacheManagerStats.Size (LargestCache (foldl statsStep zeroCacheStats (xs @ [x]))) =
              CacheManagerStats.Size (LargestCache ?S)"
      and mg: "CacheStats.LargestCacheManager (foldl statsStep zeroCacheStats (xs @ [x])) =
               CacheStats.LargestCacheManager ?S"
      using ngt by (simp_all add: statsStep_largest)
    have mx: "sint (CacheManagerStats.Size (LargestCache (foldl statsStep zeroCacheStats (xs @ [x])))) =
        Max (insert 0 (sint ` CacheInfo.Size ` set (xs @ [x])))"
      unfolding Mnew sz cur max.absorb2[OF leI[OF False]] ..
    show ?thesis
    proof (cases "\<exists>info \<in> set xs. 0 < sint (CacheInfo.Size info)")
      case True
      then obtain k where k: "k < length xs"
        "CacheStats.LargestCacheManager ?S = CacheInfo.Manager (xs ! k)"
        "CacheManagerStats.Size (LargestCache ?S) = CacheInfo.Size (xs ! k)"
        "\<forall>j < k. sint (CacheInfo.Size (xs ! j)) < sint (CacheInfo.Size (xs ! k))"
        using snoc.IH by auto
      have ex: "\<exists>info \<in> set (xs @ [x]). 0 < sint (CacheInfo.Size info)" using True by auto
      have "\<exists>k < length (xs @ [x]).
           CacheStats.LargestCacheManager (foldl statsStep zeroCacheStats (xs @ [x])) = CacheInfo.Manager ((xs @ [x]) ! k) \<and>
           CacheManagerStats.Size (LargestCache (foldl statsStep zeroCacheStats (xs @ [x]))) = CacheInfo.Size ((xs @ [x]) ! k) \<and>
           (\<forall>j < k. sint (CacheInfo.Size ((xs @ [x]) ! j)) < sint (CacheInfo.Size ((xs @ [x]) ! k)))"
        by (rule exI[of _ k]) (use k sz mg in \<open>simp add: nth_append\<close>)
      then show ?thesis using ex mx by (simp only: if_True)
    next
      case F: False
      then have old: "CacheStats.LargestCacheManager ?S = []" "CacheManagerStats.Size (LargestCache ?S) = 0"
        using snoc.IH by auto
      have "?M = 0"
      proof -
        have "\<forall>a \<in> insert 0 (sint ` CacheInfo.Size ` set xs). a \<le> 0" using F by force
        then have "?M \<le> 0" by (subst Max_le_iff[OF fin]) auto
        then show ?thesis using Mge0 by linarith
      qed
      then have "\<not> 0 < sint (CacheInfo.Size x)" using leI[OF False] by linarith
      then have nex: "\<not> (\<exists>info \<in> set (xs @ [x]). 0 < sint (CacheInfo.Size info))" using F by auto
      show ?thesis using nex mx sz mg old by (simp only: if_False)
    qed
  qed
qed

lemma GetCacheSummary_eq:
  "GetCacheSummary arrival srt rng f w =
     (case fst (GetAllCacheInfo arrival srt f w) of
        Inl err \<Rightarrow> Inl err
      | Inr cacheInfos \<Rightarrow>
          Inr \<lparr>CacheSummary.TotalSize = CacheStats.TotalSize (foldl statsStep zeroCacheStats cacheInfos),
               TotalFiles = CacheStats.TotalFiles (foldl statsStep zeroCacheStats cacheInfos),
               ManagerCount = CacheStats.ManagerCount (foldl statsStep zeroCacheStats cacheInfos),
               LargestCacheManager = CacheStats.LargestCacheManager (foldl statsStep zeroCacheStats cacheInfos),
               LargestCacheSize = CacheManagerStats.Size (LargestCache (foldl statsStep zeroCacheStats cacheInfos)),
               AvailableManagers = GetAvailableManagerNames rng f w\<rparr>)"
  by (simp add: GetCacheSummary_def GetCacheStats_def split: sum.splits)

text \<open>
  C9, as the code has it. The loop of \<^verbatim>\<open>GetCacheStats\<close> starts from the zero value and
  replaces the largest cache only by a strictly larger one. When some cache has a positive
  size, \<^verbatim>\<open>LargestCacheSize\<close> is the maximal size and \<^verbatim>\<open>LargestCacheManager\<close> is
  a manager that has it, the least in the order of names among those that have it. When
  no size is positive, \<^verbatim>\<open>LargestCacheSize\<close> is 0 and \<^verbatim>\<open>LargestCacheManager\<close> is
  empty.
\<close>

theorem GetCacheSummary_largest:
  assumes srt: "sorts_by srt CacheInfo.Manager"
  shows "\<exists>cacheInfos summary.
           fst (GetAllCacheInfo arrival srt f w) = Inr cacheInfos \<and>
           GetCacheSummary arrival srt rng f w = Inr summary \<and>
           (if \<exists>info \<in> set cacheInfos. 0 < sint (CacheInfo.Size info)
            then sint (LargestCacheSize summary) = Max (sint ` CacheInfo.Size ` set cacheInfos) \<and>
                 (\<exists>info \<in> set cacheInfos.
                     CacheInfo.Manager info = CacheSummary.LargestCacheManager summary \<and>
                     CacheInfo.Size info = LargestCacheSize summary) \<and>
                 (\<forall>info \<in> set cacheInfos.
                     CacheInfo.Size info = LargestCacheSize summary \<longrightarrow>
                     CacheSummary.LargestCacheManager summary \<le> CacheInfo.Manager info)
            else LargestCacheSize summary = 0 \<and> CacheSummary.LargestCacheManager summary = [])"
proof -
  obtain infos where infos: "fst (GetAllCacheInfo arrival srt f w) = Inr infos"
    and sorted: "sorted (map CacheInfo.Manager infos)"
    using GetAllCacheInfo_fst[of arrival srt f w] sorts_by_sorted[OF srt] by blast
  let ?S = "foldl statsStep zeroCacheStats infos"
  let ?summary = "\<lparr>CacheSummary.TotalSize = CacheStats.TotalSize ?S,
               TotalFiles = CacheStats.TotalFiles ?S,
               ManagerCount = CacheStats.ManagerCount ?S,
               LargestCacheManager = CacheStats.LargestCacheManager ?S,
               LargestCacheSize = CacheManagerStats.Size (LargestCache ?S),
               AvailableManagers = GetAvailableManagerNames rng f w\<rparr>"
  have sum: "GetCacheSummary arrival srt rng f w = Inr ?summary"
    by (simp add: GetCacheSummary_eq infos)
  note inv = foldl_statsStep_largest[of infos]
  have "if \<exists>info \<in> set infos. 0 < sint (CacheInfo.Size info)
        then sint (LargestCacheSize ?summary) = Max (sint ` CacheInfo.Size ` set infos) \<and>
             (\<exists>info \<in> set infos.
                 CacheInfo.Manager info = CacheSummary.LargestCacheManager ?summary \<and>
                 CacheInfo.Size info = LargestCacheSize ?summary) \<and>
             (\<forall>info \<in> set infos.
                 CacheInfo.Size info = LargestCacheSize ?summary \<longrightarrow>
                 CacheSummary.LargestCacheManager ?summary \<le> CacheInfo.Manager info)
        else LargestCacheSize ?summary = 0 \<and> CacheSummary.LargestCacheManager ?summary = []"
  proof (cases "\<exists>info \<in> set infos. 0 < sint (CacheInfo.Size info)")
    case False
    then show ?thesis using inv by simp
  next
    case True
    then obtain k where k: "k < length infos"
        "CacheStats.LargestCacheManager ?S = CacheInfo.Manager (infos ! k)"
        "CacheManagerStats.Size (LargestCache ?S) = CacheInfo.Size (infos ! k)"
        "\<forall>j < k. sint (CacheInfo.Size (infos ! j)) < sint (CacheInfo.Size (infos ! k))"
      using inv by auto
    have fin: "finite (sint ` CacheInfo.Size ` set infos)" by simp
    obtain p where p: "p \<in> set infos" "0 < sint (CacheInfo.Size p)" using True by blast
    have ge: "Max (sint ` CacheInfo.Size ` set infos) \<ge> sint (CacheInfo.Size p)"
      using Max_ge[OF fin] p(1) by simp
    have ne: "sint ` CacheInfo.Size ` set infos \<noteq> {}" using p(1) by auto
    have "Max (insert 0 (sint ` CacheInfo.Size ` set infos)) =
          max 0 (Max (sint ` CacheInfo.Size ` set infos))"
      by (rule Max_insert[OF fin ne])
    also have "\<dots> = Max (sint ` CacheInfo.Size ` set infos)"
      using ge p(2) by (simp only: max_def) simp
    finally have "Max (insert 0 (sint ` CacheInfo.Size ` set infos)) = Max (sint ` CacheInfo.Size ` set infos)" .
    then have a: "sint (CacheManagerStats.Size (LargestCache ?S)) = Max (sint ` CacheInfo.Size ` set infos)"
      using inv by simp
    have b: "\<exists>info \<in> set infos. CacheInfo.Manager info = CacheStats.LargestCacheManager ?S \<and>
                 CacheInfo.Size info = CacheManagerStats.Size (LargestCache ?S)"
      using k nth_mem[OF k(1)] by auto
    have c: "\<forall>info \<in> set infos. CacheInfo.Size info = CacheManagerStats.Size (LargestCache ?S) \<longrightarrow>
                 CacheStats.LargestCacheManager ?S \<le> CacheInfo.Manager info"
    proof (intro ballI impI)
      fix info assume "info \<in> set infos" and eq: "CacheInfo.Size info = CacheManagerStats.Size (LargestCache ?S)"
      then obtain i where i: "i < length infos" "infos ! i = info" by (auto simp: in_set_conv_nth)
      have "\<not> i < k" using k(4) i eq k(3) by auto
      then have "k \<le> i" by simp
      then have "map CacheInfo.Manager infos ! k \<le> map CacheInfo.Manager infos ! i"
        using sorted i(1) by (simp add: sorted_iff_nth_mono)
      then show "CacheStats.LargestCacheManager ?S \<le> CacheInfo.Manager info"
        using k i by simp
    qed
    show ?thesis using True a b c by simp
  qed
  then show ?thesis using infos sum by blast
qed

theorem GetCacheSummary_largest_witness:
  "GetCacheSummary rev insertionSort rev mixedFactory freshState =
     Inr \<lparr>CacheSummary.TotalSize = 10, TotalFiles = 0, ManagerCount = 2,
          LargestCacheManager = ''npm'', LargestCacheSize = 5,
          AvailableManagers = [''yarn'', ''pnpm'', ''npm'']\<rparr>"
proof -
  have "GetCacheSummary rev insertionSort rev mixedFactory freshState =
     Inr \<lparr>CacheSummary.TotalSize = 10, TotalFiles = 0, ManagerCount = 2,
          LargestCacheManager = ''npm'', LargestCacheSize = 5,
          AvailableManagers = [''yarn'', ''pnpm'', ''npm'']\<rparr>"
    by (simp add: GetCacheSummary_eq GetAllCacheInfo_fst example_defs insertionSort_def
          GetAvailableManagerNames_def statsStep_def statsOf_def zeroCacheStats_def Let_def)
  then show ?thesis
    using GetCacheSummary_largest[OF sorts_by_insertionSort, of rev mixedFactory freshState rev]
    by blast
qed

text \<open>
  C9, as it is stated, fails on a list that is not empty and has no positive size: npm is
  the only manager, its cache has size 0, and \<^verbatim>\<open>LargestCacheManager\<close> is empty.
\<close>

theorem GetCacheSummary_largest_counterexample:
  "fst (GetAllCacheInfo rev insertionSort idleFactory freshState) = Inr [exampleCache ''npm'' 0] \<and>
   GetCacheSummary rev insertionSort rev idleFactory freshState =
     Inr \<lparr>CacheSummary.TotalSize = 0, TotalFiles = 0, ManagerCount = 1,
          LargestCacheManager = [], LargestCacheSize = 0,
          AvailableManagers = [''npm'']\<rparr>"
  by (simp add: GetCacheSummary_eq GetAllCacheInfo_fst idleFactory_def registerManagers_def
        countingBackend_def exampleCache_def freshState_def GetAvailableManagers_def
        insertionSort_def GetAvailableManagerNames_def statsStep_def statsOf_def
        zeroCacheStats_def Let_def)

subsection \<open>The key of the deduplication\<close>

text \<open>
  C3 at a failing input. The key is the text \<^verbatim>\<open>name@version:manager\<close>, and two
  packages with different names and versions can have the same text: the package
  \<^verbatim>\<open>x\<close> at the version \<^verbatim>\<open>npm:y@1.0.0\<close> and the package \<^verbatim>\<open>x@npm:y\<close> at the
  version \<^verbatim>\<open>1.0.0\<close>, both of pnpm. The second is dropped.
\<close>

theorem removeDuplicatePackages_key_collision:
  "removeDuplicatePackages
     [examplePackage ''x'' ''npm:y@1.0.0'' ''pnpm'', examplePackage ''x@npm:y'' ''1.0.0'' ''pnpm''] =
     [examplePackage ''x'' ''npm:y@1.0.0'' ''pnpm''] \<and>
   packageKey (examplePackage ''x'' ''npm:y@1.0.0'' ''pnpm'') =
     packageKey (examplePackage ''x@npm:y'' ''1.0.0'' ''pnpm'') \<and>
   Package.Name (examplePackage ''x'' ''npm:y@1.0.0'' ''pnpm'') \<noteq>
     Package.Name (examplePackage ''x@npm:y'' ''1.0.0'' ''pnpm'')"
  by (simp add: removeDuplicatePackages_def packageKey_def examplePackage_def)

text \<open>
  What does hold of the deduplication: the keys of the result are distinct, so no two
  entries share the triple of name, version and manager; every package of the input has
  its key in the result; and a package is dropped exactly when an earlier one has its
  key.
\<close>

lemma distinct_map_through: "distinct (map (\<lambda>x. g (h x)) xs) \<Longrightarrow> distinct (map h xs)"
  by (induction xs) auto

lemma removeDuplicatePackages_distinct_triples:
  "distinct (map (\<lambda>pkg. (Package.Name pkg, Package.Version pkg, Package.Manager pkg))
     (removeDuplicatePackages packages))"
proof (rule distinct_map_through)
  show "distinct (map (\<lambda>pkg. (\<lambda>(name, version, manager). name @ ''@'' @ version @ '':'' @ manager)
           (Package.Name pkg, Package.Version pkg, Package.Manager pkg))
         (removeDuplicatePackages packages))"
    using removeDuplicatePackages_distinct[of packages] by (simp add: packageKey_def[abs_def])
qed

subsection \<open>The write fan-outs\<close>

lemma foldl_applied:
  assumes step: "\<And>acc name mgr. step acc (name, mgr) =
      acc\<lparr>backends := (backends acc)(name := snd (op mgr (backends acc name))),
          failed := failed acc @ fe name (fst (op mgr (backends acc name))),
          successCount := successCount acc + sc (fst (op mgr (backends acc name))),
          written := written acc + wl name (fst (op mgr (backends acc name)))\<rparr>"
    and names: "distinct (map fst xs)"
  shows "foldl step acc xs =
      acc\<lparr>backends := (\<lambda>n. case map_of xs n of
                              Some mgr \<Rightarrow> snd (op mgr (backends acc n))
                            | None \<Rightarrow> backends acc n),
          failed := failed acc @
             concat (map (\<lambda>(name, mgr). fe name (fst (op mgr (backends acc name)))) xs),
          successCount := successCount acc +
             sum_list (map (\<lambda>(name, mgr). sc (fst (op mgr (backends acc name)))) xs),
          written := written acc +
             sum_list (map (\<lambda>(name, mgr). wl name (fst (op mgr (backends acc name)))) xs)\<rparr>"
  using names
proof (induction xs arbitrary: acc)
  case Nil
  show ?case by simp
next
  case (Cons x xs)
  obtain name mgr where x: "x = (name, mgr)" by (cases x)
  let ?acc = "step acc (name, mgr)"
  have fresh: "name \<notin> fst ` set xs" and dxs: "distinct (map fst xs)"
    using Cons.prems x by auto
  have same: "\<And>n m. (n, m) \<in> set xs \<Longrightarrow> backends ?acc n = backends acc n"
    using fresh by (auto simp: step[of acc name mgr] image_iff)
  have b: "backends ?acc = (backends acc)(name := snd (op mgr (backends acc name)))"
    and fl: "failed ?acc = failed acc @ fe name (fst (op mgr (backends acc name)))"
    and sc: "successCount ?acc = successCount acc + sc (fst (op mgr (backends acc name)))"
    and wr: "written ?acc = written acc + wl name (fst (op mgr (backends acc name)))"
    by (simp_all add: step[of acc name mgr])
  have m1: "map (\<lambda>(name, mgr). fe name (fst (op mgr (backends ?acc name)))) xs =
            map (\<lambda>(name, mgr). fe name (fst (op mgr (backends acc name)))) xs"
    by (rule map_cong[OF refl]) (use same in auto)
  have m2: "map (\<lambda>(name, mgr). sc (fst (op mgr (backends ?acc name)))) xs =
            map (\<lambda>(name, mgr). sc (fst (op mgr (backends acc name)))) xs"
    by (rule map_cong[OF refl]) (use same in auto)
  have m3: "map (\<lambda>(name, mgr). wl name (fst (op mgr (backends ?acc name)))) xs =
            map (\<lambda>(name, mgr). wl name (fst (op mgr (backends acc name)))) xs"
    by (rule map_cong[OF refl]) (use same in auto)
  have m4: "(\<lambda>n. case map_of xs n of
                    Some mgr \<Rightarrow> snd (op mgr (backends ?acc n))
                  | None \<Rightarrow> backends ?acc n) =
            (\<lambda>n. case map_of ((name, mgr) # xs) n of
                    Some mgr \<Rightarrow> snd (op mgr (backends acc n))
                  | None \<Rightarrow> backends acc n)"
  proof
    fix n
    show "(case map_of xs n of
                    Some mgr \<Rightarrow> snd (op mgr (backends ?acc n))
                  | None \<Rightarrow> backends ?acc n) =
          (case map_of ((name, mgr) # xs) n of
                    Some mgr \<Rightarrow> snd (op mgr (backends acc n))
                  | None \<Rightarrow> backends acc n)"
    proof (cases "n = name")
      case True
      then have "map_of xs n = None" using fresh by (simp add: map_of_eq_None_iff)
      then show ?thesis using True by (simp add: b)
    next
      case False
      then show ?thesis by (simp add: b split: option.splits)
    qed
  qed
  have "foldl step acc (x # xs) = foldl step ?acc xs" by (simp add: x)
  also have "\<dots> = ?acc\<lparr>backends := (\<lambda>n. case map_of xs n of
                              Some mgr \<Rightarrow> snd (op mgr (backends ?acc n))
                            | None \<Rightarrow> backends ?acc n),
          failed := failed ?acc @
             concat (map (\<lambda>(name, mgr). fe name (fst (op mgr (backends ?acc name)))) xs),
          successCount := successCount ?acc +
             sum_list (map (\<lambda>(name, mgr). sc (fst (op mgr (backends ?acc name)))) xs),
          written := written ?acc +
             sum_list (map (\<lambda>(name, mgr). wl name (fst (op mgr (backends ?acc name)))) xs)\<rparr>"
    by (rule Cons.IH[OF dxs])
  also have "\<dots> = acc\<lparr>backends := (\<lambda>n. case map_of (x # xs) n of
                              Some mgr \<Rightarrow> snd (op mgr (backends acc n))
                            | None \<Rightarrow> backends acc n),
          failed := failed acc @
             concat (map (\<lambda>(name, mgr). fe name (fst (op mgr (backends acc name)))) (x # xs)),
          successCount := successCount acc +
             sum_list (map (\<lambda>(name, mgr). sc (fst (op mgr (backends acc name)))) (x # xs)),
          written := written acc +
             sum_list (map (\<lambda>(name, mgr). wl name (fst (op mgr (backends acc name)))) (x # xs))\<rparr>"
    unfolding m1 m2 m3 m4 fl sc wr x
    by (simp add: step[of acc name mgr] add.assoc)
  finally show ?case .
qed

lemma available_distinct:
  "distinct (map fst (managers f)) \<Longrightarrow> distinct (map fst (GetAvailableManagers f w))"
  unfolding GetAvailableManagers_def by (rule distinct_map_filter)

lemma arrival_distinct:
  assumes "permutes arrival" "distinct (map fst xs)"
  shows "distinct (map fst (arrival xs))"
proof -
  have "mset (map fst (arrival xs)) = mset (map fst xs)"
    using permutes_mset[OF assms(1), of xs] by (metis mset_map)
  then show ?thesis using assms(2) by (metis mset_eq_imp_distinct_iff)
qed

lemma arrival_map_of:
  assumes "permutes arrival" "distinct (map fst xs)"
  shows "map_of (arrival xs) = map_of xs"
  by (rule map_of_inject_set[THEN iffD2, OF arrival_distinct[OF assms] assms(2)])
     (simp add: permutes_set[OF assms(1)])

lemma clearCache_fold:
  assumes "distinct (map fst xs)"
  shows "foldl (\<lambda>acc (name, mgr). clearCacheTask name mgr acc) acc xs =
      acc\<lparr>backends := (\<lambda>n. case map_of xs n of
                              Some mgr \<Rightarrow> snd (ClearCache mgr (backends acc n))
                            | None \<Rightarrow> backends acc n),
          failed := failed acc @
             concat (map (\<lambda>(name, mgr). case fst (ClearCache mgr (backends acc name)) of
                  Some err \<Rightarrow> [Errorf (''failed to clear cache for '' @ name @ '': '' @ Error err) (Some err)]
                | None \<Rightarrow> []) xs),
          successCount := successCount acc +
             sum_list (map (\<lambda>(name, mgr). case fst (ClearCache mgr (backends acc name)) of
                  Some err \<Rightarrow> 0 | None \<Rightarrow> 1) xs),
          written := written acc +
             sum_list (map (\<lambda>(name, mgr). case fst (ClearCache mgr (backends acc name)) of
                  Some err \<Rightarrow> {#Entry ErrorLevel ''Failed to clear cache'' (Some err) [(''manager'', Str name)]#}
                | None \<Rightarrow> {#Entry InfoLevel ''Cache cleared successfully'' None [(''manager'', Str name)]#}) xs)\<rparr>"
  by (rule foldl_applied[where op = ClearCache
        and fe = "\<lambda>name r. case r of
                  Some err \<Rightarrow> [Errorf (''failed to clear cache for '' @ name @ '': '' @ Error err) (Some err)]
                | None \<Rightarrow> []"
        and sc = "\<lambda>r. case r of Some err \<Rightarrow> 0 | None \<Rightarrow> 1"
        and wl = "\<lambda>name r. case r of
                  Some err \<Rightarrow> {#Entry ErrorLevel ''Failed to clear cache'' (Some err) [(''manager'', Str name)]#}
                | None \<Rightarrow> {#Entry InfoLevel ''Cache cleared successfully'' None [(''manager'', Str name)]#}",
        OF _ assms])
     (auto simp: clearCacheTask_def split: prod.splits option.splits)

lemma sublist_within: "sublist s t \<Longrightarrow> sublist s (p @ t @ q)"
proof -
  assume "sublist s t"
  then obtain ps ss where "t = ps @ s @ ss" by (auto simp: sublist_def)
  then have "p @ t @ q = (p @ ps) @ s @ (ss @ q)" by simp
  then show ?thesis unfolding sublist_def by blast
qed

lemma joinSpace_sublist: "s \<in> set ss \<Longrightarrow> sublist s (joinSpace ss)"
proof (induction ss rule: joinSpace.induct)
  case 1
  then show ?case by simp
next
  case (2 t)
  then show ?case by simp
next
  case (3 t u rest)
  show ?case
  proof (cases "s = t")
    case True
    then show ?thesis by (simp add: sublist_append_rightI)
  next
    case False
    then have "sublist s (joinSpace (u # rest))" using 3 by simp
    then have "sublist s ((t @ '' '') @ joinSpace (u # rest) @ [])" by (rule sublist_within)
    then show ?thesis by simp
  qed
qed

lemma formatErrors_sublist:
  assumes "err \<in> set errs" "sublist s (Error err)"
  shows "sublist s (formatErrors errs)"
proof -
  have "sublist (Error err) (joinSpace (map Error errs))"
    by (rule joinSpace_sublist) (use assms(1) in simp)
  then have "sublist s (joinSpace (map Error errs))"
    using assms(2) by (rule sublist_order.order_trans[rotated])
  then have "sublist s (''['' @ joinSpace (map Error errs) @ '']'')"
    by (rule sublist_within)
  then show ?thesis by (simp add: formatErrors_def)
qed

lemma ClearAllCaches_eq:
  assumes ord: "permutes arrival" and names: "distinct (map fst (managers f))"
  shows "fst (ClearAllCaches arrival f w) =
           (if concat (map (\<lambda>(name, mgr). case fst (ClearCache mgr (w name)) of
                  Some err \<Rightarrow> [Errorf (''failed to clear cache for '' @ name @ '': '' @ Error err) (Some err)]
                | None \<Rightarrow> []) (arrival (GetAvailableManagers f w))) \<noteq> []
            then Some (Errorf (''failed to clear some caches: '' @ formatErrors
                   (concat (map (\<lambda>(name, mgr). case fst (ClearCache mgr (w name)) of
                  Some err \<Rightarrow> [Errorf (''failed to clear cache for '' @ name @ '': '' @ Error err) (Some err)]
                | None \<Rightarrow> []) (arrival (GetAvailableManagers f w))))) None)
            else None)"
    and "fst (snd (ClearAllCaches arrival f w)) =
           (\<lambda>n. case map_of (GetAvailableManagers f w) n of
                   Some mgr \<Rightarrow> snd (ClearCache mgr (w n))
                 | None \<Rightarrow> w n)"
proof -
  note d = arrival_distinct[OF ord available_distinct[OF names, of w]]
  note m = arrival_map_of[OF ord available_distinct[OF names, of w]]
  show "fst (ClearAllCaches arrival f w) =
           (if concat (map (\<lambda>(name, mgr). case fst (ClearCache mgr (w name)) of
                  Some err \<Rightarrow> [Errorf (''failed to clear cache for '' @ name @ '': '' @ Error err) (Some err)]
                | None \<Rightarrow> []) (arrival (GetAvailableManagers f w))) \<noteq> []
            then Some (Errorf (''failed to clear some caches: '' @ formatErrors
                   (concat (map (\<lambda>(name, mgr). case fst (ClearCache mgr (w name)) of
                  Some err \<Rightarrow> [Errorf (''failed to clear cache for '' @ name @ '': '' @ Error err) (Some err)]
                | None \<Rightarrow> []) (arrival (GetAvailableManagers f w))))) None)
            else None)"
    unfolding ClearAllCaches_def Let_def clearCache_fold[OF d] by simp
  show "fst (snd (ClearAllCaches arrival f w)) =
           (\<lambda>n. case map_of (GetAvailableManagers f w) n of
                   Some mgr \<Rightarrow> snd (ClearCache mgr (w n))
                 | None \<Rightarrow> w n)"
    unfolding ClearAllCaches_def Let_def clearCache_fold[OF d] m
    by (simp add: fun_eq_iff cong: option.case_cong)
qed

lemma concat_map_eq_Nil_iff: "concat (map g xs) = [] \<longleftrightarrow> (\<forall>x \<in> set xs. g x = [])"
  by (induction xs) auto

lemma names_mixed: "distinct (map fst (managers mixedFactory))"
  by (simp add: mixedFactory_def registerManagers_def)

text \<open>
  C5. \<^verbatim>\<open>ClearAllCaches\<close> applies \<^verbatim>\<open>ClearCache\<close> once to the state of every available
  backend, whatever the other calls return, and leaves every other backend as it was: the
  state it returns holds the effect of each call, of the failed ones and of the succeeded
  ones (nothing is rolled back). It returns no error exactly when every call succeeds.
  When it returns an error, that is one error whose text lists the error of every failed
  backend, and the name of each failed backend occurs in it. The names of the factory's
  map are distinct.
\<close>

theorem ClearAllCaches_best_effort:
  assumes ord: "permutes arrival" and names: "distinct (map fst (managers f))"
  shows "(\<forall>name. fst (snd (ClearAllCaches arrival f w)) name =
            (case map_of (GetAvailableManagers f w) name of
               Some mgr \<Rightarrow> snd (ClearCache mgr (w name))
             | None \<Rightarrow> w name)) \<and>
         (fst (ClearAllCaches arrival f w) = None \<longleftrightarrow>
            (\<forall>(name, mgr) \<in> set (GetAvailableManagers f w). fst (ClearCache mgr (w name)) = None)) \<and>
         (\<forall>err. fst (ClearAllCaches arrival f w) = Some err \<longrightarrow>
            (\<exists>errs. err = Errorf (''failed to clear some caches: '' @ formatErrors errs) None \<and>
               mset errs =
                 mset (concat (map (\<lambda>(name, mgr). case fst (ClearCache mgr (w name)) of
                     Some cause \<Rightarrow>
                       [Errorf (''failed to clear cache for '' @ name @ '': '' @ Error cause) (Some cause)]
                   | None \<Rightarrow> []) (GetAvailableManagers f w))) \<and>
               (\<forall>(name, mgr) \<in> set (GetAvailableManagers f w).
                   fst (ClearCache mgr (w name)) \<noteq> None \<longrightarrow> sublist name (Error err))))"
proof (intro conjI allI impI)
  let ?fe = "\<lambda>(name, mgr). case fst (ClearCache mgr (w name)) of
                     Some cause \<Rightarrow>
                       [Errorf (''failed to clear cache for '' @ name @ '': '' @ Error cause) (Some cause)]
                   | None \<Rightarrow> []"
  let ?A = "arrival (GetAvailableManagers f w)"
  let ?errs = "concat (map ?fe ?A)"
  note e = ClearAllCaches_eq(1)[OF ord names, of w]
  have setA: "set ?A = set (GetAvailableManagers f w)" by (rule permutes_set[OF ord])
  fix name
  show "fst (snd (ClearAllCaches arrival f w)) name =
            (case map_of (GetAvailableManagers f w) name of
               Some mgr \<Rightarrow> snd (ClearCache mgr (w name))
             | None \<Rightarrow> w name)"
    by (simp add: ClearAllCaches_eq(2)[OF ord names])
  have nil: "?errs = [] \<longleftrightarrow>
      (\<forall>(name, mgr) \<in> set (GetAvailableManagers f w). fst (ClearCache mgr (w name)) = None)"
    unfolding concat_map_eq_Nil_iff setA by (auto split: option.splits)
  show "fst (ClearAllCaches arrival f w) = None \<longleftrightarrow>
            (\<forall>(name, mgr) \<in> set (GetAvailableManagers f w). fst (ClearCache mgr (w name)) = None)"
    unfolding e nil[symmetric] by simp
  fix err assume some: "fst (ClearAllCaches arrival f w) = Some err"
  then have err: "err = Errorf (''failed to clear some caches: '' @ formatErrors ?errs) None"
    unfolding e by (simp split: if_splits)
  have ms: "mset ?errs = mset (concat (map ?fe (GetAvailableManagers f w)))"
    by (rule mset_concat_map_cong) (rule permutes_mset[OF ord])
  have named: "\<forall>(name, mgr) \<in> set (GetAvailableManagers f w).
                   fst (ClearCache mgr (w name)) \<noteq> None \<longrightarrow> sublist name (Error err)"
  proof (intro ballI, clarify)
    fix name mgr cause
    assume mem: "(name, mgr) \<in> set (GetAvailableManagers f w)"
      and c: "fst (ClearCache mgr (w name)) = Some cause"
    let ?one = "Errorf (''failed to clear cache for '' @ name @ '': '' @ Error cause) (Some cause)"
    have one: "?one \<in> set (?fe (name, mgr))" using c by simp
    have "(name, mgr) \<in> set ?A" using mem setA by simp
    then have "set (?fe (name, mgr)) \<subseteq> set ?errs" by (simp only: set_concat set_map) blast
    then have "?one \<in> set ?errs" using one by blast
    moreover have "sublist name (Error ?one)"
      using sublist_within[where s = name and t = name and p = "''failed to clear cache for ''"
          and q = "'': '' @ Error cause"]
      by simp
    ultimately have "sublist name (formatErrors ?errs)" by (rule formatErrors_sublist)
    then have "sublist name (''failed to clear some caches: '' @ formatErrors ?errs @ [])"
      by (rule sublist_within)
    then show "sublist name (Error err)" unfolding err by simp
  qed
  show "\<exists>errs. err = Errorf (''failed to clear some caches: '' @ formatErrors errs) None \<and>
               mset errs = mset (concat (map ?fe (GetAvailableManagers f w))) \<and>
               (\<forall>(name, mgr) \<in> set (GetAvailableManagers f w).
                   fst (ClearCache mgr (w name)) \<noteq> None \<longrightarrow> sublist name (Error err))"
    using err ms named by blast
qed

theorem ClearAllCaches_best_effort_witness:
  "fst (ClearAllCaches rev mixedFactory freshState) =
     Some (Errorf ''failed to clear some caches: [failed to clear cache for pnpm: permission denied]'' None) \<and>
   fst (snd (ClearAllCaches rev mixedFactory freshState)) ''npm'' = 1 \<and>
   fst (snd (ClearAllCaches rev mixedFactory freshState)) ''pnpm'' = 1 \<and>
   fst (snd (ClearAllCaches rev mixedFactory freshState)) ''yarn'' = 1 \<and>
   fst (snd (ClearAllCaches rev mixedFactory freshState)) ''bun'' = 0"
proof -
  note t = ClearAllCaches_best_effort[OF permutes_rev names_mixed, of freshState]
  have e: "fst (ClearAllCaches rev mixedFactory freshState) =
     Some (Errorf ''failed to clear some caches: [failed to clear cache for pnpm: permission denied]'' None)"
    by (subst ClearAllCaches_eq(1)[OF permutes_rev names_mixed])
       (simp add: example_defs formatErrors_def)
  from t have "\<forall>name. fst (snd (ClearAllCaches rev mixedFactory freshState)) name =
            (case map_of (GetAvailableManagers mixedFactory freshState) name of
               Some mgr \<Rightarrow> snd (ClearCache mgr (freshState name))
             | None \<Rightarrow> freshState name)" by blast
  then have "fst (snd (ClearAllCaches rev mixedFactory freshState)) ''npm'' = 1"
    and "fst (snd (ClearAllCaches rev mixedFactory freshState)) ''pnpm'' = 1"
    and "fst (snd (ClearAllCaches rev mixedFactory freshState)) ''yarn'' = 1"
    and "fst (snd (ClearAllCaches rev mixedFactory freshState)) ''bun'' = 0"
    by (simp_all add: example_defs)
  with e show ?thesis by blast
qed

subsection \<open>Validation of URLs\<close>

lemma setProxy_fold:
  assumes "distinct (map fst xs)"
  shows "foldl (\<lambda>acc (name, mgr). setProxyTask proxyURL name mgr acc) acc xs =
      acc\<lparr>backends := (\<lambda>n. case map_of xs n of
                              Some mgr \<Rightarrow> snd (SetProxy mgr (backends acc n) proxyURL)
                            | None \<Rightarrow> backends acc n),
          failed := failed acc @
             concat (map (\<lambda>(name, mgr). case fst (SetProxy mgr (backends acc name) proxyURL) of
                  Some err \<Rightarrow> [Errorf (''failed to set proxy for '' @ name @ '': '' @ Error err) (Some err)]
                | None \<Rightarrow> []) xs),
          successCount := successCount acc +
             sum_list (map (\<lambda>(name, mgr). case fst (SetProxy mgr (backends acc name) proxyURL) of
                  Some err \<Rightarrow> 0 | None \<Rightarrow> 1) xs),
          written := written acc +
             sum_list (map (\<lambda>(name, mgr). case fst (SetProxy mgr (backends acc name) proxyURL) of
                  Some err \<Rightarrow> {#Entry ErrorLevel ''Failed to set proxy'' (Some err) [(''manager'', Str name)]#}
                | None \<Rightarrow> {#if proxyURL = []
                      then Entry InfoLevel ''Proxy removed'' None [(''manager'', Str name)]
                      else Entry InfoLevel ''Proxy updated'' None
                             [(''manager'', Str name), (''proxy'', Str proxyURL)]#}) xs)\<rparr>"
  by (rule foldl_applied[where op = "\<lambda>mgr st. SetProxy mgr st proxyURL"
        and fe = "\<lambda>name r. case r of
                  Some err \<Rightarrow> [Errorf (''failed to set proxy for '' @ name @ '': '' @ Error err) (Some err)]
                | None \<Rightarrow> []"
        and sc = "\<lambda>r. case r of Some err \<Rightarrow> 0 | None \<Rightarrow> 1"
        and wl = "\<lambda>name r. case r of
                  Some err \<Rightarrow> {#Entry ErrorLevel ''Failed to set proxy'' (Some err) [(''manager'', Str name)]#}
                | None \<Rightarrow> {#if proxyURL = []
                      then Entry InfoLevel ''Proxy removed'' None [(''manager'', Str name)]
                      else Entry InfoLevel ''Proxy updated'' None
                             [(''manager'', Str name), (''proxy'', Str proxyURL)]#}",
        OF _ assms])
     (auto simp: setProxyTask_def split: prod.splits option.splits)

lemma setRegistry_fold:
  assumes "distinct (map fst xs)"
  shows "foldl (\<lambda>acc (name, mgr). setRegistryTask registryURL name mgr acc) acc xs =
      acc\<lparr>backends := (\<lambda>n. case map_of xs n of
                              Some mgr \<Rightarrow> snd (SetRegistry mgr (backends acc n) registryURL)
                            | None \<Rightarrow> backends acc n),
          failed := failed acc @
             concat (map (\<lambda>(name, mgr). case fst (SetRegistry mgr (backends acc name) registryURL) of
                  Some err \<Rightarrow> [Errorf (''failed to set registry for '' @ name @ '': '' @ Error err) (Some err)]
                | None \<Rightarrow> []) xs),
          successCount := successCount acc +
             sum_list (map (\<lambda>(name, mgr). case fst (SetRegistry mgr (backends acc name) registryURL) of
                  Some err \<Rightarrow> 0 | None \<Rightarrow> 1) xs),
          written := written acc +
             sum_list (map (\<lambda>(name, mgr). case fst (SetRegistry mgr (backends acc name) registryURL) of
                  Some err \<Rightarrow> {#Entry ErrorLevel ''Failed to set registry'' (Some err) [(''manager'', Str name)]#}
                | None \<Rightarrow> {#Entry InfoLevel ''Registry updated'' None
                             [(''manager'', Str name), (''registry'', Str registryURL)]#}) xs)\<rparr>"
  by (rule foldl_applied[where op = "\<lambda>mgr st. SetRegistry mgr st registryURL"
        and fe = "\<lambda>name r. case r of
                  Some err \<Rightarrow> [Errorf (''failed to set registry for '' @ name @ '': '' @ Error err) (Some err)]
                | None \<Rightarrow> []"
        and sc = "\<lambda>r. case r of Some err \<Rightarrow> 0 | None \<Rightarrow> 1"
        and wl = "\<lambda>name r. case r of
                  Some err \<Rightarrow> {#Entry ErrorLevel ''Failed to set registry'' (Some err) [(''manager'', Str name)]#}
                | None \<Rightarrow> {#Entry InfoLevel ''Registry updated'' None
                             [(''manager'', Str name), (''registry'', Str registryURL)]#}",
        OF _ assms])
     (auto simp: setRegistryTask_def split: prod.splits option.splits)

lemma SetProxyForAll_empty:
  assumes ord: "permutes arrival" and names: "distinct (map fst (managers f))"
  shows "fst (SetProxyForAll parse arrival f w []) =
           (if concat (map (\<lambda>(name, mgr). case fst (SetProxy mgr (w name) []) of
                  Some err \<Rightarrow> [Errorf (''failed to set proxy for '' @ name @ '': '' @ Error err) (Some err)]
                | None \<Rightarrow> []) (arrival (GetAvailableManagers f w))) \<noteq> []
            then Some (Errorf (''failed to set proxy for some managers: '' @ formatErrors
                   (concat (map (\<lambda>(name, mgr). case fst (SetProxy mgr (w name) []) of
                  Some err \<Rightarrow> [Errorf (''failed to set proxy for '' @ name @ '': '' @ Error err) (Some err)]
                | None \<Rightarrow> []) (arrival (GetAvailableManagers f w))))) None)
            else None)"
    and "fst (snd (SetProxyForAll parse arrival f w [])) =
           (\<lambda>n. case map_of (GetAvailableManagers f w) n of
                   Some mgr \<Rightarrow> snd (SetProxy mgr (w n) [])
                 | None \<Rightarrow> w n)"
proof -
  note d = arrival_distinct[OF ord available_distinct[OF names, of w]]
  note m = arrival_map_of[OF ord available_distinct[OF names, of w]]
  show "fst (SetProxyForAll parse arrival f w []) =
           (if concat (map (\<lambda>(name, mgr). case fst (SetProxy mgr (w name) []) of
                  Some err \<Rightarrow> [Errorf (''failed to set proxy for '' @ name @ '': '' @ Error err) (Some err)]
                | None \<Rightarrow> []) (arrival (GetAvailableManagers f w))) \<noteq> []
            then Some (Errorf (''failed to set proxy for some managers: '' @ formatErrors
                   (concat (map (\<lambda>(name, mgr). case fst (SetProxy mgr (w name) []) of
                  Some err \<Rightarrow> [Errorf (''failed to set proxy for '' @ name @ '': '' @ Error err) (Some err)]
                | None \<Rightarrow> []) (arrival (GetAvailableManagers f w))))) None)
            else None)"
    unfolding SetProxyForAll_def Let_def setProxy_fold[OF d] by simp
  show "fst (snd (SetProxyForAll parse arrival f w [])) =
           (\<lambda>n. case map_of (GetAvailableManagers f w) n of
                   Some mgr \<Rightarrow> snd (SetProxy mgr (w n) [])
                 | None \<Rightarrow> w n)"
    unfolding SetProxyForAll_def Let_def setProxy_fold[OF d] m
    by (simp add: fun_eq_iff cong: option.case_cong)
qed

lemma ValidateRegistryURL_invalid:
  assumes "url = [] \<or> (\<exists>err. parse url = Inl err) \<or>
           (\<exists>u. parse url = Inr u \<and> ((Scheme u \<noteq> ''http'' \<and> Scheme u \<noteq> ''https'') \<or> Host u = []))"
  shows "\<exists>message. ValidateRegistryURL parse url = Some (ValidationError ''registry'' url message)"
  using assms by (auto simp: ValidateRegistryURL_def NewValidationError_def split: sum.splits)

lemma ValidateProxyURL_invalid:
  assumes "url \<noteq> []"
    and "(\<exists>err. parse url = Inl err) \<or>
           (\<exists>u. parse url = Inr u \<and> ((Scheme u \<noteq> ''http'' \<and> Scheme u \<noteq> ''https'') \<or> Host u = []))"
  shows "\<exists>message. ValidateProxyURL parse url = Some (ValidationError ''proxy'' url message)"
  using assms by (auto simp: ValidateProxyURL_def NewValidationError_def split: sum.splits)

text \<open>
  C6. When the URL is empty, or does not parse, or has a scheme other than
  \<^verbatim>\<open>http\<close> and \<^verbatim>\<open>https\<close>, or has an empty host, \<^verbatim>\<open>SetRegistryForAll\<close> and
  \<^verbatim>\<open>SetRegistry\<close> return a \<^verbatim>\<open>ValidationError\<close> and the states of the backends
  they were given, with nothing logged: no method of a backend was called. The same holds
  of \<^verbatim>\<open>SetProxyForAll\<close> and \<^verbatim>\<open>SetProxy\<close> for a URL that is not empty. The empty
  proxy URL is passed on: \<^verbatim>\<open>SetProxyForAll\<close> applies \<^verbatim>\<open>SetProxy\<close> with the empty
  text to every available backend and fails only when one of these calls fails, and
  \<^verbatim>\<open>SetProxy\<close> of the service returns what the backend's \<^verbatim>\<open>SetProxy\<close> returns.
\<close>

theorem url_validation_before_backends:
  assumes ord: "permutes arrival" and names: "distinct (map fst (managers f))"
  shows
   "((url = [] \<or> (\<exists>err. parse url = Inl err) \<or>
       (\<exists>u. parse url = Inr u \<and> ((Scheme u \<noteq> ''http'' \<and> Scheme u \<noteq> ''https'') \<or> Host u = []))) \<longrightarrow>
       (\<exists>message. SetRegistryForAll parse arrival f w url =
           (Some (ValidationError ''registry'' url message), w, {#})) \<and>
       (\<exists>message. ConfigService_SetRegistry parse f w managerName url =
           (Some (ValidationError ''registry'' url message), w, {#}))) \<and>
    ((url \<noteq> [] \<and> ((\<exists>err. parse url = Inl err) \<or>
       (\<exists>u. parse url = Inr u \<and> ((Scheme u \<noteq> ''http'' \<and> Scheme u \<noteq> ''https'') \<or> Host u = [])))) \<longrightarrow>
       (\<exists>message. SetProxyForAll parse arrival f w url =
           (Some (ValidationError ''proxy'' url message), w, {#})) \<and>
       (\<exists>message. ConfigService_SetProxy parse f w managerName url =
           (Some (ValidationError ''proxy'' url message), w, {#}))) \<and>
    (\<forall>name. fst (snd (SetProxyForAll parse arrival f w [])) name =
       (case map_of (GetAvailableManagers f w) name of
          Some mgr \<Rightarrow> snd (SetProxy mgr (w name) [])
        | None \<Rightarrow> w name)) \<and>
    (fst (SetProxyForAll parse arrival f w []) = None \<longleftrightarrow>
       (\<forall>(name, mgr) \<in> set (GetAvailableManagers f w). fst (SetProxy mgr (w name) []) = None)) \<and>
    (\<forall>mgr. map_of (managers f) managerName = Some mgr \<and> IsAvailable mgr (w managerName) \<longrightarrow>
       fst (ConfigService_SetProxy parse f w managerName []) = fst (SetProxy mgr (w managerName) []) \<and>
       fst (snd (ConfigService_SetProxy parse f w managerName [])) =
         w(managerName := snd (SetProxy mgr (w managerName) [])))"
proof (intro conjI impI allI)
  assume bad: "url = [] \<or> (\<exists>err. parse url = Inl err) \<or>
       (\<exists>u. parse url = Inr u \<and> ((Scheme u \<noteq> ''http'' \<and> Scheme u \<noteq> ''https'') \<or> Host u = []))"
  from ValidateRegistryURL_invalid[of url parse] bad obtain message
    where v: "ValidateRegistryURL parse url = Some (ValidationError ''registry'' url message)"
    by blast
  show "\<exists>message. SetRegistryForAll parse arrival f w url =
           (Some (ValidationError ''registry'' url message), w, {#})"
    by (simp add: SetRegistryForAll_def v)
  show "\<exists>message. ConfigService_SetRegistry parse f w managerName url =
           (Some (ValidationError ''registry'' url message), w, {#})"
    by (simp add: ConfigService_SetRegistry_def v)
next
  assume bad: "url \<noteq> [] \<and> ((\<exists>err. parse url = Inl err) \<or>
       (\<exists>u. parse url = Inr u \<and> ((Scheme u \<noteq> ''http'' \<and> Scheme u \<noteq> ''https'') \<or> Host u = [])))"
  then have ne: "url \<noteq> []" by blast
  from ValidateProxyURL_invalid[of url parse] ne bad obtain message
    where v: "ValidateProxyURL parse url = Some (ValidationError ''proxy'' url message)" by blast
  show "\<exists>message. SetProxyForAll parse arrival f w url =
           (Some (ValidationError ''proxy'' url message), w, {#})"
    by (simp add: SetProxyForAll_def v ne)
  show "\<exists>message. ConfigService_SetProxy parse f w managerName url =
           (Some (ValidationError ''proxy'' url message), w, {#})"
    by (simp add: ConfigService_SetProxy_def v ne)
next
  fix name
  show "fst (snd (SetProxyForAll parse arrival f w [])) name =
       (case map_of (GetAvailableManagers f w) name of
          Some mgr \<Rightarrow> snd (SetProxy mgr (w name) [])
        | None \<Rightarrow> w name)"
    by (simp add: SetProxyForAll_empty(2)[OF ord names])
next
  have setA: "set (arrival (GetAvailableManagers f w)) = set (GetAvailableManagers f w)"
    by (rule permutes_set[OF ord])
  have nil: "concat (map (\<lambda>(name, mgr). case fst (SetProxy mgr (w name) []) of
                  Some err \<Rightarrow> [Errorf (''failed to set proxy for '' @ name @ '': '' @ Error err) (Some err)]
                | None \<Rightarrow> []) (arrival (GetAvailableManagers f w))) = [] \<longleftrightarrow>
      (\<forall>(name, mgr) \<in> set (GetAvailableManagers f w). fst (SetProxy mgr (w name) []) = None)"
    unfolding concat_map_eq_Nil_iff setA by (auto split: option.splits)
  show "fst (SetProxyForAll parse arrival f w []) = None \<longleftrightarrow>
       (\<forall>(name, mgr) \<in> set (GetAvailableManagers f w). fst (SetProxy mgr (w name) []) = None)"
    unfolding SetProxyForAll_empty(1)[OF ord names] nil[symmetric] by simp
next
  fix mgr
  assume "map_of (managers f) managerName = Some mgr \<and> IsAvailable mgr (w managerName)"
  then show "fst (ConfigService_SetProxy parse f w managerName []) = fst (SetProxy mgr (w managerName) [])"
    and "fst (snd (ConfigService_SetProxy parse f w managerName [])) =
         w(managerName := snd (SetProxy mgr (w managerName) []))"
    by (auto simp: ConfigService_SetProxy_def GetManager_def split: prod.splits option.splits)
qed
theorem url_validation_before_backends_witness:
  "SetRegistryForAll exampleParse rev mixedFactory freshState ''not-a-url'' =
     (Some (ValidationError ''registry'' ''not-a-url'' ''registry URL must use http or https scheme''),
      freshState, {#}) \<and>
   SetRegistryForAll exampleParse rev mixedFactory freshState ''http://[::1'' =
     (Some (ValidationError ''registry'' ''http://[::1'' ''invalid URL format''), freshState, {#}) \<and>
   ConfigService_SetProxy exampleParse mixedFactory freshState ''npm'' ''ftp://invalid.com/'' =
     (Some (ValidationError ''proxy'' ''ftp://invalid.com/'' ''proxy URL must use http or https scheme''),
      freshState, {#}) \<and>
   fst (SetProxyForAll exampleParse rev mixedFactory freshState []) =
     Some (Errorf ''failed to set proxy for some managers: [failed to set proxy for pnpm: permission denied]'' None) \<and>
   fst (snd (SetProxyForAll exampleParse rev mixedFactory freshState [])) ''npm'' = 1 \<and>
   fst (snd (SetProxyForAll exampleParse rev mixedFactory freshState [])) ''bun'' = 0"
proof -
  note t = url_validation_before_backends[OF permutes_rev names_mixed,
      of "[]" exampleParse freshState "''npm''"]
  from t have "\<forall>name. fst (snd (SetProxyForAll exampleParse rev mixedFactory freshState [])) name =
       (case map_of (GetAvailableManagers mixedFactory freshState) name of
          Some mgr \<Rightarrow> snd (SetProxy mgr (freshState name) [])
        | None \<Rightarrow> freshState name)" by blast
  then have s: "fst (snd (SetProxyForAll exampleParse rev mixedFactory freshState [])) ''npm'' = 1"
     "fst (snd (SetProxyForAll exampleParse rev mixedFactory freshState [])) ''bun'' = 0"
    by (simp_all add: example_defs)
  have a: "SetRegistryForAll exampleParse rev mixedFactory freshState ''not-a-url'' =
     (Some (ValidationError ''registry'' ''not-a-url'' ''registry URL must use http or https scheme''),
      freshState, {#})"
    by (simp add: SetRegistryForAll_def ValidateRegistryURL_def exampleParse_def NewValidationError_def)
  have b: "SetRegistryForAll exampleParse rev mixedFactory freshState ''http://[::1'' =
     (Some (ValidationError ''registry'' ''http://[::1'' ''invalid URL format''), freshState, {#})"
    by (simp add: SetRegistryForAll_def ValidateRegistryURL_def exampleParse_def NewValidationError_def)
  have c: "ConfigService_SetProxy exampleParse mixedFactory freshState ''npm'' ''ftp://invalid.com/'' =
     (Some (ValidationError ''proxy'' ''ftp://invalid.com/'' ''proxy URL must use http or https scheme''),
      freshState, {#})"
    by (simp add: ConfigService_SetProxy_def ValidateProxyURL_def exampleParse_def NewValidationError_def)
  have d: "fst (SetProxyForAll exampleParse rev mixedFactory freshState []) =
     Some (Errorf ''failed to set proxy for some managers: [failed to set proxy for pnpm: permission denied]'' None)"
    by (subst SetProxyForAll_empty(1)[OF permutes_rev names_mixed])
       (simp add: example_defs formatErrors_def)
  from a b c d s show ?thesis by blast
qed

subsection \<open>The dependency tree of a project\<close>




end
